theory Spec2Isabelle
  imports Main "HOL-Library.Char_ord" "HOL-Library.List_Lexorder" "HOL-Library.Multiset"
begin

section \<open>The weather chatbot backend (main.py) as a shallow embedding\<close>

text \<open>
  The program is one Python module: a weather tool (\<open>get_weather\<close>), two history
  helpers over a DynamoDB table (\<open>save_message\<close>, \<open>get_recent_history\<close>) and two HTTP
  handlers (\<open>chat_with_gemini\<close>, \<open>get_full_history\<close>). Every function below keeps the
  name of the Python function it embeds. What the module reaches outside itself (the clock,
  the table, the weather provider, the language model) is an explicit component of an
  environment \<open>env\<close>, read by the functions, and everything the module changes or emits is a
  component of a \<open>world\<close> that is passed through and returned. A Python exception is a
  value \<open>Inl e\<close>; the world is returned beside it, since effects made before a raise stay.
\<close>

subsection \<open>Exceptions\<close>

text \<open>
  The subclasses of \<open>requests.exceptions.RequestException\<close> that \<open>requests.get\<close>,
  \<open>raise_for_status\<close> and \<open>response.json\<close> raise. Each carries the text that
  \<open>str(e)\<close> gives.
\<close>

datatype requests_exn =
    ConnectionError string
  | Timeout string
  | HTTPError string
  | JSONDecodeError string

fun str_requests_exn :: "requests_exn \<Rightarrow> string" where
  "str_requests_exn (ConnectionError m) = m"
| "str_requests_exn (Timeout m) = m"
| "str_requests_exn (HTTPError m) = m"
| "str_requests_exn (JSONDecodeError m) = m"

datatype exn =
    NameError string
  | HTTPException nat string
  | RequestValidationError
  | KeyError string
  | IndexError
  | TypeError
  | AttributeError
  | ValueError string
  | RequestException requests_exn
  | ParamValidationError
  | ClientError string
  | GoogleAPIError string

text \<open>
  The status the HTTP framework answers with when a handler ends in an exception: the
  status of an \<open>HTTPException\<close>, 422 for a body that does not fit the request model, and
  500 for any exception the handler lets through.
\<close>

fun http_status :: "exn \<Rightarrow> nat" where
  "http_status (HTTPException code detail) = code"
| "http_status RequestValidationError = 422"
| "http_status _ = 500"

definition ebind :: "exn + 'a \<Rightarrow> ('a \<Rightarrow> exn + 'b) \<Rightarrow> exn + 'b" where
  "ebind m f = (case m of Inl e \<Rightarrow> Inl e | Inr x \<Rightarrow> f x)"

subsection \<open>JSON values and Python subscripting\<close>

text \<open>
  A parsed JSON document. A number is kept as it is written; the module never computes with
  one. \<open>getitem d k\<close> is Python's \<open>d[k]\<close> for a string key and \<open>getitem0 d\<close> is
  \<open>d[0]\<close>: a missing key raises KeyError, an empty list IndexError, and a value that
  cannot be subscripted that way TypeError. A JSON object with a repeated key keeps the last
  value, as \<open>json.loads\<close> does.
\<close>

datatype json =
    JNull
  | JBool bool
  | JNum string
  | JStr string
  | JArr "json list"
  | JObj "(string \<times> json) list"

fun getitem :: "json \<Rightarrow> string \<Rightarrow> exn + json" where
  "getitem (JObj kvs) k = (case map_of (rev kvs) k of None \<Rightarrow> Inl (KeyError k) | Some v \<Rightarrow> Inr v)"
| "getitem _ k = Inl TypeError"

fun getitem0 :: "json \<Rightarrow> exn + json" where
  "getitem0 (JArr []) = Inl IndexError"
| "getitem0 (JArr (x # xs)) = Inr x"
| "getitem0 (JStr []) = Inl IndexError"
| "getitem0 (JStr (c # cs)) = Inr (JStr [c])"
| "getitem0 (JObj kvs) = Inl (KeyError ''0'')"
| "getitem0 _ = Inl TypeError"

subsection \<open>The weather provider\<close>

datatype body = NotJson | Json json

record http_response =
  status_code :: nat
  reason :: string
  body :: body

datatype http_outcome = Failed requests_exn | Responded http_response

text \<open>
  \<open>raise_for_status\<close> raises HTTPError for a 4xx or 5xx status and nothing otherwise;
  \<open>response.json()\<close> raises the library's JSONDecodeError, a RequestException, for a body
  that is not JSON.
\<close>

definition raise_for_status :: "http_response \<Rightarrow> exn + unit" where
  "raise_for_status response =
     (if 400 \<le> status_code response \<and> status_code response < 600
      then Inl (RequestException (HTTPError (reason response)))
      else Inr ())"

definition response_json :: "http_response \<Rightarrow> exn + json" where
  "response_json response =
     (case body response of
        NotJson \<Rightarrow> Inl (RequestException (JSONDecodeError ''Expecting value''))
      | Json data \<Rightarrow> Inr data)"

subsection \<open>The history table\<close>

record item =
  UserID :: string
  Timestamp :: string
  Sender :: string
  Message :: string

text \<open>
  Modelled from the spec: the DynamoDB table is created outside the repository, so its key
  schema is missing from the source. The persisted record layout of the specification keys an
  item by \<open>UserID\<close> with \<open>Timestamp\<close> as the range key. On such a table \<open>put_item\<close>
  replaces the item that has the same key, and a query with \<open>ScanIndexForward=False\<close> and
  \<open>Limit=n\<close> selects the items of the user by descending range key, at most \<open>n\<close> of them.
  Timestamps are ISO-8601 strings and compare as Python strings do, character by character.
\<close>

definition same_key :: "item \<Rightarrow> item \<Rightarrow> bool" where
  "same_key a b = (UserID a = UserID b \<and> Timestamp a = Timestamp b)"

definition put_item :: "item \<Rightarrow> item list \<Rightarrow> item list" where
  "put_item it tbl = filter (\<lambda>j. \<not> same_key j it) tbl @ [it]"

definition query_newest_first :: "string \<Rightarrow> int \<Rightarrow> item list \<Rightarrow> item list" where
  "query_newest_first user_id limit tbl =
     take (nat limit) (rev (sort_key Timestamp (filter (\<lambda>j. UserID j = user_id) tbl)))"

subsection \<open>The language model's replies\<close>

text \<open>
  What the handler reads of a reply: \<open>response.candidates[0].content.parts[0]\<close>, the
  \<open>function_call\<close> of that part with its \<open>args\<close>, and \<open>response.text\<close>. The text
  accessor belongs to the client library and may itself raise, so it is a component of the
  reply with a result of its own. A candidate without content stands for a reply on which the
  attribute chain raises AttributeError.
\<close>

record function_call =
  name :: string
  args :: "(string \<times> string) list"

record part =
  function_call :: "function_call option"

record content =
  parts :: "part list"

record candidate =
  content :: "content option"

record gen_response =
  candidates :: "candidate list"
  text_of :: "exn + string"

text \<open>
  One entry of a chat session: a turn of the stored history with its role, the message the
  handler sends, the reply the library appends to the session, and the result of the tool
  sent back as a \<open>function_response\<close> part.
\<close>

datatype chat_content =
    RoleText string string
  | UserMessage string
  | ModelReply gen_response
  | FunctionResponse string json

subsection \<open>Environment and world\<close>

text \<open>
  \<open>chat_history_table\<close> is the module's global of that name after the module has been
  loaded: \<open>Unbound\<close> when no statement assigned it, \<open>Falsy\<close> when it holds a value that
  \<open>not\<close> takes for false, \<open>Table\<close> when it holds the table resource.
\<close>

datatype handle = Unbound | Falsy | Table

record env =
  chat_history_table :: handle
  now_iso :: "nat \<Rightarrow> string"
  store_fault :: "nat \<Rightarrow> exn option"
  query_order :: "item list \<Rightarrow> item list"
  weather_api :: "string option \<Rightarrow> string \<Rightarrow> http_outcome"
  gemini :: "chat_content list \<Rightarrow> exn + gen_response"

text \<open>
  \<open>now_iso env k\<close> is what the \<open>k\<close>-th evaluation of
  \<open>datetime.now(timezone.utc).isoformat()\<close> gives, \<open>store_fault env k\<close> the exception
  with which the \<open>k\<close>-th call of the table fails, if it fails; \<open>query_order env\<close>
  is the order in which the table lists the items a query has selected in its answer;
  \<open>weather_api\<close> answers a GET with the parameters \<open>q\<close> and \<open>units\<close>, and
  \<open>gemini\<close> answers a conversation with what \<open>chat.send_message\<close> returns or raises.
  The world counts the clock readings and table calls made so far, holds the items of the
  table, and logs every weather query and every conversation sent to the model.
\<close>

record world =
  table_items :: "item list"
  clock_reads :: nat
  store_calls :: nat
  weather_calls :: "(string option \<times> string) list"
  model_calls :: "chat_content list list"

type_synonym 'a io = "world \<Rightarrow> (exn + 'a) \<times> world"

definition io_return :: "'a \<Rightarrow> 'a io" where
  "io_return x s = (Inr x, s)"

definition io_raise :: "exn \<Rightarrow> 'a io" where
  "io_raise e s = (Inl e, s)"

definition io_bind :: "'a io \<Rightarrow> ('a \<Rightarrow> 'b io) \<Rightarrow> 'b io" where
  "io_bind m f s = (case m s of (Inl e, s') \<Rightarrow> (Inl e, s') | (Inr x, s') \<Rightarrow> f x s')"

definition io_lift :: "exn + 'a \<Rightarrow> 'a io" where
  "io_lift r s = (r, s)"

text \<open>\<open>try: m except (IndexError, AttributeError): h\<close>\<close>

definition io_except_index_attribute :: "'a io \<Rightarrow> 'a io \<Rightarrow> 'a io" where
  "io_except_index_attribute m h s =
     (case m s of
        (Inl e, s') \<Rightarrow> (if e = IndexError \<or> e = AttributeError then h s' else (Inl e, s'))
      | (Inr x, s') \<Rightarrow> (Inr x, s'))"

subsection \<open>Module initialisation (lines 17 to 29)\<close>

text \<open>
  \<open>chat_history_table\<close> is assigned only inside \<open>if CHAT_HISTORY_TABLE_NAME:\<close>; the
  statement before it initialises \<open>dynamodb_client\<close> alone. With the variable unset or
  empty the global stays unbound.
\<close>

definition module_init :: "string option \<Rightarrow> handle" where
  "module_init CHAT_HISTORY_TABLE_NAME =
     (case CHAT_HISTORY_TABLE_NAME of
        None \<Rightarrow> Unbound
      | Some [] \<Rightarrow> Unbound
      | Some (c # cs) \<Rightarrow> Table)"

subsection \<open>get\_weather (lines 43 to 53)\<close>

definition units_param :: "string \<Rightarrow> string" where
  "units_param unit = (if unit = ''celsius'' then ''metric'' else ''imperial'')"

text \<open>
  The body of the \<open>try\<close> after the GET has answered: the status check, the JSON parse and
  the dictionary built from \<open>data["name"]\<close>, \<open>data["main"]["temp"]\<close>, \<open>unit\<close> and
  \<open>data["weather"][0]["description"]\<close>, evaluated in that order.
\<close>

definition weather_payload :: "string \<Rightarrow> http_response \<Rightarrow> exn + json" where
  "weather_payload unit response =
     ebind (raise_for_status response) (\<lambda>u.
     ebind (response_json response) (\<lambda>data.
     ebind (getitem data ''name'') (\<lambda>loc.
     ebind (ebind (getitem data ''main'') (\<lambda>m. getitem m ''temp'')) (\<lambda>temp.
     ebind (ebind (ebind (getitem data ''weather'') getitem0) (\<lambda>w. getitem w ''description''))
       (\<lambda>cond.
     Inr (JObj [(''location'', loc), (''temperature'', temp), (''unit'', JStr unit),
                (''conditions'', cond)]))))))"

text \<open>
  The value returned is the dictionary that \<open>json.dumps\<close> serialises. Only a
  RequestException is caught; any other exception leaves the function.
\<close>

definition get_weather :: "env \<Rightarrow> string option \<Rightarrow> string \<Rightarrow> json io" where
  "get_weather env location unit s =
     (let units = units_param unit;
          s' = s\<lparr>weather_calls := weather_calls s @ [(location, units)]\<rparr>;
          attempt = (case weather_api env location units of
                       Failed e \<Rightarrow> Inl (RequestException e)
                     | Responded response \<Rightarrow> weather_payload unit response)
      in case attempt of
           Inr payload \<Rightarrow> (Inr payload, s')
         | Inl (RequestException e) \<Rightarrow>
             (Inr (JObj [(''error'',
                          JStr (''Failed to get weather data: '' @ str_requests_exn e))]), s')
         | Inl e \<Rightarrow> (Inl e, s'))"

subsection \<open>save\_message and get\_recent\_history (lines 56 to 71)\<close>

definition utcnow_isoformat :: "env \<Rightarrow> string io" where
  "utcnow_isoformat env s = (Inr (now_iso env (clock_reads s)), s\<lparr>clock_reads := Suc (clock_reads s)\<rparr>)"

definition table_put_item :: "env \<Rightarrow> item \<Rightarrow> unit io" where
  "table_put_item env it s =
     (case store_fault env (store_calls s) of
        Some e \<Rightarrow> (Inl e, s\<lparr>store_calls := Suc (store_calls s)\<rparr>)
      | None \<Rightarrow> (Inr (), s\<lparr>table_items := put_item it (table_items s),
                             store_calls := Suc (store_calls s)\<rparr>))"

text \<open>
  DynamoDB accepts a \<open>Limit\<close> of at least 1; the client refuses any other before sending.
  The answer lists the selected items in the order the environment gives them.
\<close>

definition table_query :: "env \<Rightarrow> string \<Rightarrow> int \<Rightarrow> item list io" where
  "table_query env user_id limit s =
     (if limit < 1 then (Inl ParamValidationError, s)
      else case store_fault env (store_calls s) of
             Some e \<Rightarrow> (Inl e, s\<lparr>store_calls := Suc (store_calls s)\<rparr>)
           | None \<Rightarrow> (Inr (query_order env (query_newest_first user_id limit (table_items s))),
                       s\<lparr>store_calls := Suc (store_calls s)\<rparr>))"

definition save_message :: "env \<Rightarrow> string \<Rightarrow> string \<Rightarrow> string \<Rightarrow> unit io" where
  "save_message env user_id sender message =
     (case chat_history_table env of
        Unbound \<Rightarrow> io_raise (NameError ''chat_history_table'')
      | Falsy \<Rightarrow> io_return ()
      | Table \<Rightarrow>
          io_bind (utcnow_isoformat env) (\<lambda>timestamp.
          table_put_item env \<lparr>UserID = user_id, Timestamp = timestamp,
                               Sender = sender, Message = message\<rparr>))"

text \<open>\<open>sorted(items, key=lambda x: x['Timestamp'])\<close>; Python's sort is stable, as \<open>sort_key\<close> is.\<close>

definition sorted_by_timestamp :: "item list \<Rightarrow> item list" where
  "sorted_by_timestamp items = sort_key Timestamp items"

definition get_recent_history :: "env \<Rightarrow> string \<Rightarrow> int \<Rightarrow> item list io" where
  "get_recent_history env user_id limit =
     (case chat_history_table env of
        Unbound \<Rightarrow> io_raise (NameError ''chat_history_table'')
      | Falsy \<Rightarrow> io_return []
      | Table \<Rightarrow>
          io_bind (table_query env user_id limit) (\<lambda>items.
          io_return (sorted_by_timestamp items)))"

subsection \<open>The chat session\<close>

text \<open>
  \<open>chat.send_message(c)\<close> sends the session's history followed by \<open>c\<close>; when the model
  answers, the library appends \<open>c\<close> and the reply to the session.
\<close>

definition send_message ::
  "env \<Rightarrow> chat_content list \<Rightarrow> chat_content \<Rightarrow> (gen_response \<times> chat_content list) io" where
  "send_message env chat c s =
     (let s' = s\<lparr>model_calls := model_calls s @ [chat @ [c]]\<rparr>
      in case gemini env (chat @ [c]) of
           Inl e \<Rightarrow> (Inl e, s')
         | Inr response \<Rightarrow> (Inr (response, chat @ [c, ModelReply response]), s'))"

text \<open>
  \<open>{"role": "user" if item['Sender'] == 'USER' else "model", "parts": [{"text": item['Message']}]}\<close>
\<close>

definition history_entry :: "item \<Rightarrow> chat_content" where
  "history_entry it = RoleText (if Sender it = ''USER'' then ''user'' else ''model'') (Message it)"

text \<open>\<open>response.candidates[0].content.parts[0]\<close>\<close>

definition first_part :: "gen_response \<Rightarrow> exn + part" where
  "first_part response =
     (case candidates response of
        [] \<Rightarrow> Inl IndexError
      | c # cs \<Rightarrow>
          (case content c of
             None \<Rightarrow> Inl AttributeError
           | Some ct \<Rightarrow> (case parts ct of [] \<Rightarrow> Inl IndexError | p # ps \<Rightarrow> Inr p)))"

text \<open>The reply is a request to invoke the tool: its first part carries a \<open>function_call\<close>.\<close>

definition requests_tool :: "gen_response \<Rightarrow> bool" where
  "requests_tool response =
     (case first_part response of Inl e \<Rightarrow> False | Inr p \<Rightarrow> function_call p \<noteq> None)"

subsection \<open>The handlers (lines 74 to 109)\<close>

record ChatRequest =
  userId :: string
  message :: string

text \<open>
  Lines 91 to 100, the body of the \<open>try\<close>: the tool is called with the \<open>location\<close>
  argument alone, so \<open>unit\<close> takes its default.
\<close>

definition interpret_response :: "env \<Rightarrow> chat_content list \<Rightarrow> gen_response \<Rightarrow> string io" where
  "interpret_response env chat response =
     io_bind (io_lift (first_part response)) (\<lambda>p.
       case function_call p of
         Some fc \<Rightarrow>
           io_bind (get_weather env (map_of (rev (args fc)) ''location'') ''celsius'')
             (\<lambda>function_response_data.
           io_bind (send_message env chat (FunctionResponse ''get_weather'' function_response_data))
             (\<lambda>(api_response, chat').
           io_lift (text_of api_response)))
       | None \<Rightarrow> io_lift (text_of response))"

text \<open>Lines 86 to 102: the conversation with the model, from the history to the answer text.\<close>

definition model_turn :: "env \<Rightarrow> item list \<Rightarrow> string \<Rightarrow> string io" where
  "model_turn env history msg =
     io_bind (send_message env (map history_entry history) (UserMessage msg)) (\<lambda>(response, chat).
     io_except_index_attribute (interpret_response env chat response)
       (io_lift (text_of response)))"

definition chat_with_gemini :: "env \<Rightarrow> ChatRequest \<Rightarrow> string io" where
  "chat_with_gemini env request =
     (if message request = [] \<or> userId request = []
      then io_raise (HTTPException 400 ''userId and message cannot be empty'')
      else
        io_bind (save_message env (userId request) ''USER'' (message request)) (\<lambda>u.
        io_bind (get_recent_history env (userId request) 5) (\<lambda>history.
        io_bind (model_turn env history (message request)) (\<lambda>response_text.
        io_bind (save_message env (userId request) ''BOT'' response_text) (\<lambda>u.
        io_return response_text)))))"

definition get_full_history :: "env \<Rightarrow> string \<Rightarrow> item list io" where
  "get_full_history env user_id = get_recent_history env user_id 100"

text \<open>
  The request model has two required string fields. The framework builds it from the body
  and answers 422 without calling the handler when a field is missing.
\<close>

record chat_body =
  userId_field :: "string option"
  message_field :: "string option"

definition parse_ChatRequest :: "chat_body \<Rightarrow> exn + ChatRequest" where
  "parse_ChatRequest b =
     (case userId_field b of
        None \<Rightarrow> Inl RequestValidationError
      | Some u \<Rightarrow>
          (case message_field b of
             None \<Rightarrow> Inl RequestValidationError
           | Some m \<Rightarrow> Inr \<lparr>userId = u, message = m\<rparr>))"

definition post_chat :: "env \<Rightarrow> chat_body \<Rightarrow> string io" where
  "post_chat env b =
     (case parse_ChatRequest b of
        Inl e \<Rightarrow> io_raise e
      | Inr request \<Rightarrow> chat_with_gemini env request)"

section \<open>Scenarios\<close>

text \<open>
  Concrete environments on which the theorems below are exercised: replies of the model,
  answers of the weather provider, clocks and store faults.
\<close>

definition text_reply :: "string \<Rightarrow> gen_response" where
  "text_reply t =
     \<lparr>candidates = [\<lparr>content = Some \<lparr>parts = [\<lparr>function_call = None\<rparr>]\<rparr>\<rparr>],
      text_of = Inr t\<rparr>"

definition tool_request :: "(string \<times> string) list \<Rightarrow> gen_response" where
  "tool_request as =
     \<lparr>candidates = [\<lparr>content = Some \<lparr>parts =
         [\<lparr>function_call = Some \<lparr>name = ''get_weather'', args = as\<rparr>\<rparr>]\<rparr>\<rparr>],
      text_of = Inl (ValueError ''Could not convert part.function_call to text.'')\<rparr>"

text \<open>
  A reply whose one candidate has no part. The text accessor of the client library raises
  ValueError on a reply from which no part can be read.
\<close>

definition partless_reply :: gen_response where
  "partless_reply =
     \<lparr>candidates = [\<lparr>content = Some \<lparr>parts = []\<rparr>\<rparr>],
      text_of = Inl (ValueError ''response.text requires the response to contain a valid Part'')\<rparr>"

text \<open>A model that answers in plain text, one that asks for the weather in Paris in
  fahrenheit and answers once it has the tool result, and one whose reply has no part.\<close>

definition plain_model :: "chat_content list \<Rightarrow> exn + gen_response" where
  "plain_model conv = Inr (text_reply ''Hello!'')"

fun is_function_response :: "chat_content \<Rightarrow> bool" where
  "is_function_response (FunctionResponse n r) = True"
| "is_function_response c = False"

definition weather_model :: "chat_content list \<Rightarrow> exn + gen_response" where
  "weather_model conv =
     (if conv \<noteq> [] \<and> is_function_response (last conv)
      then Inr (text_reply ''It is 18.2 degrees with clear sky in Paris.'')
      else Inr (tool_request [(''location'', ''Paris''), (''unit'', ''fahrenheit'')]))"

definition partless_model :: "chat_content list \<Rightarrow> exn + gen_response" where
  "partless_model conv = Inr partless_reply"

definition paris_api :: "string option \<Rightarrow> string \<Rightarrow> http_outcome" where
  "paris_api q units =
     Responded \<lparr>status_code = 200, reason = ''OK'',
       body = Json (JObj [(''name'', JStr ''Paris''),
                          (''main'', JObj [(''temp'', JNum ''18.2'')]),
                          (''weather'', JArr [JObj [(''description'', JStr ''clear sky'')]])])\<rparr>"

definition bare_api :: "string option \<Rightarrow> string \<Rightarrow> http_outcome" where
  "bare_api q units = Responded \<lparr>status_code = 200, reason = ''OK'', body = Json (JObj [])\<rparr>"

definition down_api :: "string option \<Rightarrow> string \<Rightarrow> http_outcome" where
  "down_api q units = Failed (ConnectionError ''Connection refused'')"

definition ticking_clock :: "nat \<Rightarrow> string" where
  "ticking_clock k =
     (case k of 0 \<Rightarrow> ''2024-05-01T10:00:00.250000+00:00''
              | Suc j \<Rightarrow> ''2024-05-01T10:00:01.750000+00:00'')"

definition stalled_clock :: "nat \<Rightarrow> string" where
  "stalled_clock k = ''2024-05-01T10:00:00.250000+00:00''"

text \<open>A wall clock that is set back by a second and a half between its first two readings.\<close>

definition set_back_clock :: "nat \<Rightarrow> string" where
  "set_back_clock k =
     (case k of 0 \<Rightarrow> ''2024-05-01T10:00:01.750000+00:00''
              | Suc j \<Rightarrow> ''2024-05-01T10:00:00.250000+00:00'')"

text \<open>The table answers a query newest first, as selected, or in another order.\<close>

definition as_selected :: "item list \<Rightarrow> item list" where
  "as_selected xs = xs"

definition shuffled :: "item list \<Rightarrow> item list" where
  "shuffled xs = rotate1 xs"

definition no_fault :: "nat \<Rightarrow> exn option" where
  "no_fault k = None"

definition third_call_fault :: "nat \<Rightarrow> exn option" where
  "third_call_fault k = (if k = 2 then Some (ClientError ''ProvisionedThroughputExceededException'') else None)"

definition fresh_world :: world where
  "fresh_world = \<lparr>table_items = [], clock_reads = 0, store_calls = 0,
                  weather_calls = [], model_calls = []\<rparr>"

definition plain_env :: env where
  "plain_env = \<lparr>chat_history_table = module_init (Some ''ChatHistory''), now_iso = ticking_clock,
                store_fault = no_fault, query_order = as_selected,
      weather_api = paris_api, gemini = plain_model\<rparr>"

definition weather_env :: env where
  "weather_env = \<lparr>chat_history_table = module_init (Some ''ChatHistory''), now_iso = ticking_clock,
                  store_fault = no_fault, query_order = as_selected,
      weather_api = paris_api, gemini = weather_model\<rparr>"

definition unconfigured_env :: env where
  "unconfigured_env = \<lparr>chat_history_table = module_init None, now_iso = ticking_clock,
                       store_fault = no_fault, query_order = as_selected,
      weather_api = paris_api, gemini = plain_model\<rparr>"

definition hi_request :: ChatRequest where
  "hi_request = \<lparr>userId = ''u1'', message = ''hi''\<rparr>"

definition paris_request :: ChatRequest where
  "paris_request = \<lparr>userId = ''u1'', message = ''What is the weather in Paris?''\<rparr>"

text \<open>The two items a turn of \<open>hi_request\<close> answered \<open>Hello!\<close> writes under the ticking clock.\<close>

definition hi_user_item :: item where
  "hi_user_item = \<lparr>UserID = ''u1'', Timestamp = ''2024-05-01T10:00:00.250000+00:00'',
                    Sender = ''USER'', Message = ''hi''\<rparr>"

definition hello_bot_item :: item where
  "hello_bot_item = \<lparr>UserID = ''u1'', Timestamp = ''2024-05-01T10:00:01.750000+00:00'',
                      Sender = ''BOT'', Message = ''Hello!''\<rparr>"

text \<open>A table that holds three messages of \<open>u1\<close>, stored out of order, and one of \<open>u2\<close>.\<close>

definition archive_world :: world where
  "archive_world =
     \<lparr>table_items =
        [\<lparr>UserID = ''u1'', Timestamp = ''2024-04-30T09:00:02+00:00'', Sender = ''USER'',
          Message = ''and tomorrow?''\<rparr>,
         \<lparr>UserID = ''u2'', Timestamp = ''2024-04-30T09:00:01.500000+00:00'', Sender = ''USER'',
          Message = ''hello''\<rparr>,
         \<lparr>UserID = ''u1'', Timestamp = ''2024-04-30T09:00:00.100000+00:00'', Sender = ''USER'',
          Message = ''weather?''\<rparr>,
         \<lparr>UserID = ''u1'', Timestamp = ''2024-04-30T09:00:01.900000+00:00'', Sender = ''BOT'',
          Message = ''Sunny.''\<rparr>],
      clock_reads = 0, store_calls = 0, weather_calls = [], model_calls = []\<rparr>"

text \<open>The item a turn of \<open>paris_request\<close> writes first, and what the tool returns for
  the answer of \<open>paris_api\<close>.\<close>

definition paris_user_item :: item where
  "paris_user_item = \<lparr>UserID = ''u1'', Timestamp = ''2024-05-01T10:00:00.250000+00:00'',
                       Sender = ''USER'', Message = ''What is the weather in Paris?''\<rparr>"

definition paris_payload :: json where
  "paris_payload = JObj [(''location'', JStr ''Paris''), (''temperature'', JNum ''18.2''),
                         (''unit'', JStr ''celsius''), (''conditions'', JStr ''clear sky'')]"

definition paris_call :: function_call where
  "paris_call = \<lparr>name = ''get_weather'',
                  args = [(''location'', ''Paris''), (''unit'', ''fahrenheit'')]\<rparr>"

text \<open>The table fails on its third call, which in a chat turn is the write of the BOT message.\<close>

definition faulty_env :: env where
  "faulty_env = \<lparr>chat_history_table = module_init (Some ''ChatHistory''), now_iso = ticking_clock,
                 store_fault = third_call_fault, query_order = as_selected,
      weather_api = paris_api, gemini = plain_model\<rparr>"

text \<open>The provider answers 200 with a JSON object that has none of the expected keys.\<close>

definition bare_env :: env where
  "bare_env = \<lparr>chat_history_table = module_init (Some ''ChatHistory''), now_iso = ticking_clock,
               store_fault = no_fault, query_order = as_selected,
      weather_api = bare_api, gemini = weather_model\<rparr>"

text \<open>The provider cannot be reached.\<close>

definition down_env :: env where
  "down_env = \<lparr>chat_history_table = module_init (Some ''ChatHistory''), now_iso = ticking_clock,
               store_fault = no_fault, query_order = as_selected,
      weather_api = down_api, gemini = weather_model\<rparr>"

text \<open>Two readings of the clock give the same instant.\<close>

definition stalled_env :: env where
  "stalled_env = \<lparr>chat_history_table = module_init (Some ''ChatHistory''), now_iso = stalled_clock,
                  store_fault = no_fault, query_order = as_selected,
      weather_api = paris_api, gemini = plain_model\<rparr>"

text \<open>The clock is set back while the model answers.\<close>

definition set_back_env :: env where
  "set_back_env = \<lparr>chat_history_table = module_init (Some ''ChatHistory''), now_iso = set_back_clock,
                   store_fault = no_fault, query_order = as_selected,
      weather_api = paris_api, gemini = plain_model\<rparr>"

text \<open>The model answers with a candidate that has no part.\<close>

definition partless_env :: env where
  "partless_env = \<lparr>chat_history_table = module_init (Some ''ChatHistory''), now_iso = ticking_clock,
                 store_fault = no_fault, query_order = as_selected,
      weather_api = paris_api, gemini = partless_model\<rparr>"

text \<open>The table lists the items of an answer in an order that is neither ascending nor
  descending.\<close>

definition shuffling_env :: env where
  "shuffling_env = \<lparr>chat_history_table = module_init (Some ''ChatHistory''), now_iso = ticking_clock,
      store_fault = no_fault, query_order = shuffled,
      weather_api = paris_api, gemini = plain_model\<rparr>"

text \<open>A table that holds five messages of \<open>u1\<close> stamped later than the clock reads, as
  after the clock has been set back or when another host with a clock ahead wrote them.\<close>

definition later_world :: world where
  "later_world =
     \<lparr>table_items =
        [\<lparr>UserID = ''u1'', Timestamp = ''2024-05-01T10:00:02.100000+00:00'', Sender = ''USER'',
          Message = ''q1''\<rparr>,
         \<lparr>UserID = ''u1'', Timestamp = ''2024-05-01T10:00:02.200000+00:00'', Sender = ''BOT'',
          Message = ''a1''\<rparr>,
         \<lparr>UserID = ''u1'', Timestamp = ''2024-05-01T10:00:02.300000+00:00'', Sender = ''USER'',
          Message = ''q2''\<rparr>,
         \<lparr>UserID = ''u1'', Timestamp = ''2024-05-01T10:00:02.400000+00:00'', Sender = ''BOT'',
          Message = ''a2''\<rparr>,
         \<lparr>UserID = ''u1'', Timestamp = ''2024-05-01T10:00:02.500000+00:00'', Sender = ''USER'',
          Message = ''q3''\<rparr>],
      clock_reads = 0, store_calls = 0, weather_calls = [], model_calls = []\<rparr>"

section \<open>Properties\<close>

lemmas io_defs = io_return_def io_raise_def io_bind_def io_lift_def io_except_index_attribute_def

subsection \<open>The unbound table global\<close>

lemma unbound_table_raises:
  assumes "chat_history_table env = Unbound"
  shows "save_message env user_id sender msg s = (Inl (NameError ''chat_history_table''), s)"
    and "get_recent_history env user_id limit s = (Inl (NameError ''chat_history_table''), s)"
  using assms by (simp_all add: save_message_def get_recent_history_def io_defs)

lemma falsy_table_degrades:
  assumes "chat_history_table env = Falsy"
  shows "save_message env user_id sender msg s = (Inr (), s)"
    and "get_recent_history env user_id limit s = (Inr [], s)"
  using assms by (simp_all add: save_message_def get_recent_history_def io_defs)

text \<open>
  C1. With no table identifier in the environment the claim expects \<open>save_message\<close> to do
  nothing and \<open>get_recent_history\<close> to return the empty list. The guards of both
  functions do so for a global that holds a false value (\<open>falsy_table_degrades\<close>), but
  module initialisation leaves the global unbound: both helpers raise NameError, and so do
  \<open>POST /chat\<close> and \<open>GET /history/u1\<close>, which the framework answers with status 500.
\<close>

theorem unconfigured_store_raises_NameError:
  "module_init None = Unbound
   \<and> save_message unconfigured_env ''u1'' ''USER'' ''hi'' fresh_world
       = (Inl (NameError ''chat_history_table''), fresh_world)
   \<and> get_recent_history unconfigured_env ''u1'' 5 fresh_world
       = (Inl (NameError ''chat_history_table''), fresh_world)
   \<and> post_chat unconfigured_env \<lparr>userId_field = Some ''u1'', message_field = Some ''hi''\<rparr>
         fresh_world
       = (Inl (NameError ''chat_history_table''), fresh_world)
   \<and> get_full_history unconfigured_env ''u1'' fresh_world
       = (Inl (NameError ''chat_history_table''), fresh_world)
   \<and> http_status (NameError ''chat_history_table'') = 500"
  by (simp add: unconfigured_env_def module_init_def save_message_def get_recent_history_def
      get_full_history_def post_chat_def parse_ChatRequest_def chat_with_gemini_def io_defs)

subsection \<open>Request validation\<close>

text \<open>
  C9. A \<open>POST /chat\<close> body in which \<open>userId\<close> or \<open>message\<close> is missing or empty is
  rejected with a client error and the world is returned as it was: no item is written and
  the table is not even called. A body with both fields present and one of them empty is
  answered 400 by the handler; a missing field is refused by the request model with 422.
\<close>

theorem invalid_request_rejected_without_writes:
  assumes "userId_field b = None \<or> userId_field b = Some [] \<or>
           message_field b = None \<or> message_field b = Some []"
  shows "\<exists>e. post_chat env b s = (Inl e, s) \<and> 400 \<le> http_status e \<and> http_status e < 500
           \<and> (userId_field b \<noteq> None \<and> message_field b \<noteq> None \<longrightarrow> http_status e = 400)"
  using assms
  by (auto simp: post_chat_def parse_ChatRequest_def chat_with_gemini_def io_defs
      split: option.splits)

theorem invalid_request_rejected_without_writes_witness:
  "(userId_field \<lparr>userId_field = Some ''u1'', message_field = Some []\<rparr> = None
      \<or> userId_field \<lparr>userId_field = Some ''u1'', message_field = Some []\<rparr> = Some []
      \<or> message_field \<lparr>userId_field = Some ''u1'', message_field = Some []\<rparr> = None
      \<or> message_field \<lparr>userId_field = Some ''u1'', message_field = Some []\<rparr> = Some [])
   \<and> (\<exists>e. post_chat plain_env \<lparr>userId_field = Some ''u1'', message_field = Some []\<rparr> fresh_world
              = (Inl e, fresh_world) \<and> http_status e = 400)"
  using invalid_request_rejected_without_writes
          [of "\<lparr>userId_field = Some ''u1'', message_field = Some []\<rparr>" plain_env fresh_world]
  by auto

subsection \<open>Evaluating the scenarios\<close>

lemmas scenario_defs = plain_env_def weather_env_def faulty_env_def bare_env_def down_env_def
  stalled_env_def partless_env_def unconfigured_env_def module_init_def fresh_world_def
  hi_request_def paris_request_def plain_model_def weather_model_def partless_model_def
  text_reply_def tool_request_def partless_reply_def paris_api_def bare_api_def down_api_def
  as_selected_def shuffled_def shuffling_env_def later_world_def
  ticking_clock_def stalled_clock_def no_fault_def third_call_fault_def
  hi_user_item_def hello_bot_item_def paris_user_item_def paris_payload_def paris_call_def
  archive_world_def set_back_clock_def set_back_env_def

lemmas code_defs = chat_with_gemini_def model_turn_def interpret_response_def first_part_def
  send_message_def history_entry_def save_message_def get_recent_history_def
  sorted_by_timestamp_def table_query_def table_put_item_def utcnow_isoformat_def
  get_weather_def weather_payload_def units_param_def raise_for_status_def response_json_def
  ebind_def put_item_def same_key_def query_newest_first_def get_full_history_def
  post_chat_def parse_ChatRequest_def

subsection \<open>The handler after the model has answered\<close>

lemma chat_after_model_turn:
  assumes "message request \<noteq> []" and "userId request \<noteq> []"
    and "save_message env (userId request) ''USER'' (message request) s = (Inr (), s1)"
    and "get_recent_history env (userId request) 5 s1 = (Inr history, s2)"
    and "model_turn env history (message request) s2 = (Inr response_text, s3)"
  shows "chat_with_gemini env request s =
           io_bind (save_message env (userId request) ''BOT'' response_text)
             (\<lambda>u. io_return response_text) s3"
  using assms by (simp add: chat_with_gemini_def io_defs)

text \<open>
  C2 as stated: when the model call succeeds and the write of the BOT message fails, the
  caller still receives the answer text. It fails where the table refuses its third call:
  the model has answered \<open>Hello!\<close>, and the handler ends in the exception of the write.
\<close>

theorem bot_persist_failure_counterexample:
  "gemini faulty_env [RoleText ''user'' ''hi'', UserMessage ''hi''] = Inr (text_reply ''Hello!'')
   \<and> text_of (text_reply ''Hello!'') = Inr ''Hello!''
   \<and> fst (chat_with_gemini faulty_env hi_request fresh_world)
       = Inl (ClientError ''ProvisionedThroughputExceededException'')"
  by (simp add: scenario_defs code_defs io_defs)

text \<open>
  C2, amended. For every chat turn in which the model call succeeds with the answer
  \<open>response_text\<close>, \<open>POST /chat\<close> returns that answer exactly when the final write of
  the BOT message succeeds; when the write raises, its exception is the result of the
  handler and no response is returned. \<open>save_message\<close> is called before \<open>return\<close> and
  nothing catches what it raises.
\<close>

theorem chat_answer_needs_bot_persist:
  assumes "message request \<noteq> []" and "userId request \<noteq> []"
    and "save_message env (userId request) ''USER'' (message request) s = (Inr (), s1)"
    and "get_recent_history env (userId request) 5 s1 = (Inr history, s2)"
    and "model_turn env history (message request) s2 = (Inr response_text, s3)"
  shows "chat_with_gemini env request s =
           (case save_message env (userId request) ''BOT'' response_text s3 of
              (Inl e, s4) \<Rightarrow> (Inl e, s4)
            | (Inr u, s4) \<Rightarrow> (Inr response_text, s4))"
  using assms by (simp add: chat_with_gemini_def io_defs split: prod.splits sum.splits)

theorem chat_answer_needs_bot_persist_witness:
  "message hi_request \<noteq> [] \<and> userId hi_request \<noteq> []
   \<and> save_message plain_env (userId hi_request) ''USER'' (message hi_request) fresh_world
       = (Inr (), fresh_world\<lparr>table_items := [hi_user_item], clock_reads := 1, store_calls := 1\<rparr>)
   \<and> get_recent_history plain_env (userId hi_request) 5
         (fresh_world\<lparr>table_items := [hi_user_item], clock_reads := 1, store_calls := 1\<rparr>)
       = (Inr [hi_user_item],
          fresh_world\<lparr>table_items := [hi_user_item], clock_reads := 1, store_calls := 2\<rparr>)
   \<and> model_turn plain_env [hi_user_item] (message hi_request)
         (fresh_world\<lparr>table_items := [hi_user_item], clock_reads := 1, store_calls := 2\<rparr>)
       = (Inr ''Hello!'',
          fresh_world\<lparr>table_items := [hi_user_item], clock_reads := 1, store_calls := 2,
                        model_calls := [[RoleText ''user'' ''hi'', UserMessage ''hi'']]\<rparr>)
   \<and> chat_with_gemini plain_env hi_request fresh_world
       = (Inr ''Hello!'',
          fresh_world\<lparr>table_items := [hi_user_item, hello_bot_item], clock_reads := 2,
                        store_calls := 3,
                        model_calls := [[RoleText ''user'' ''hi'', UserMessage ''hi'']]\<rparr>)"
proof -
  let ?w1 = "fresh_world\<lparr>table_items := [hi_user_item], clock_reads := 1, store_calls := 1\<rparr>"
  let ?w2 = "fresh_world\<lparr>table_items := [hi_user_item], clock_reads := 1, store_calls := 2\<rparr>"
  let ?w3 = "fresh_world\<lparr>table_items := [hi_user_item], clock_reads := 1, store_calls := 2,
                        model_calls := [[RoleText ''user'' ''hi'', UserMessage ''hi'']]\<rparr>"
  have a: "message hi_request \<noteq> []" and b: "userId hi_request \<noteq> []"
    by (simp_all add: hi_request_def)
  have c: "save_message plain_env (userId hi_request) ''USER'' (message hi_request) fresh_world
             = (Inr (), ?w1)"
    by (simp add: scenario_defs code_defs io_defs)
  have d: "get_recent_history plain_env (userId hi_request) 5 ?w1 = (Inr [hi_user_item], ?w2)"
    by (simp add: scenario_defs code_defs io_defs)
  have e: "model_turn plain_env [hi_user_item] (message hi_request) ?w2 = (Inr ''Hello!'', ?w3)"
    by (simp add: scenario_defs code_defs io_defs)
  have f: "save_message plain_env (userId hi_request) ''BOT'' ''Hello!'' ?w3
             = (Inr (), fresh_world\<lparr>table_items := [hi_user_item, hello_bot_item],
                  clock_reads := 2, store_calls := 3,
                  model_calls := [[RoleText ''user'' ''hi'', UserMessage ''hi'']]\<rparr>)"
    by (simp add: scenario_defs code_defs io_defs)
  from chat_answer_needs_bot_persist [OF a b c d e] f a b c d e show ?thesis
    by simp
qed

subsection \<open>The weather tool\<close>

text \<open>
  C3. The model asks for the weather in Paris in fahrenheit, for which \<open>get_weather\<close>
  would query the provider in imperial units. The handler passes the \<open>location\<close>
  argument alone, so the one query of the turn is made in metric units.
\<close>

theorem requested_unit_is_dropped:
  "gemini weather_env [RoleText ''user'' ''What is the weather in Paris?'',
                       UserMessage ''What is the weather in Paris?'']
     = Inr (tool_request [(''location'', ''Paris''), (''unit'', ''fahrenheit'')])
   \<and> units_param ''fahrenheit'' = ''imperial''
   \<and> weather_calls (snd (chat_with_gemini weather_env paris_request fresh_world))
       = [(Some ''Paris'', ''metric'')]"
  by (simp add: scenario_defs code_defs io_defs)

text \<open>
  What \<open>get_weather\<close> does catch: a request that fails, a 4xx or 5xx status and a body
  that is not JSON each end in the \<open>error\<close> payload.
\<close>

lemma get_weather_soft_failures:
  shows "weather_api env location (units_param unit) = Failed e \<Longrightarrow>
           fst (get_weather env location unit s)
             = Inr (JObj [(''error'', JStr (''Failed to get weather data: '' @ str_requests_exn e))])"
    and "weather_api env location (units_param unit) = Responded r \<Longrightarrow>
           400 \<le> status_code r \<Longrightarrow> status_code r < 600 \<Longrightarrow>
           fst (get_weather env location unit s)
             = Inr (JObj [(''error'', JStr (''Failed to get weather data: '' @ reason r))])"
    and "weather_api env location (units_param unit) = Responded r \<Longrightarrow>
           \<not> (400 \<le> status_code r \<and> status_code r < 600) \<Longrightarrow> body r = NotJson \<Longrightarrow>
           fst (get_weather env location unit s)
             = Inr (JObj [(''error'', JStr (''Failed to get weather data: '' @ ''Expecting value''))])"
  by (auto simp: get_weather_def weather_payload_def raise_for_status_def response_json_def
      ebind_def Let_def)

text \<open>
  With the provider out of reach the tool returns the error payload, the payload is sent to
  the model as the function response, and the turn completes with the model's answer.
\<close>

lemma provider_down_turn_completes:
  "fst (get_weather down_env (Some ''Paris'') ''celsius'' fresh_world)
     = Inr (JObj [(''error'', JStr ''Failed to get weather data: Connection refused'')])
   \<and> fst (chat_with_gemini down_env paris_request fresh_world)
       = Inr ''It is 18.2 degrees with clear sky in Paris.''
   \<and> last (model_calls (snd (chat_with_gemini down_env paris_request fresh_world)))
       = [RoleText ''user'' ''What is the weather in Paris?'',
          UserMessage ''What is the weather in Paris?'',
          ModelReply (tool_request (args paris_call)),
          FunctionResponse ''get_weather''
            (JObj [(''error'', JStr ''Failed to get weather data: Connection refused'')])]"
  by (simp add: scenario_defs code_defs io_defs)

text \<open>
  C4. A provider that answers 200 with a JSON object lacking the key \<open>name\<close> is a
  malformed body. \<open>get_weather\<close> raises KeyError on it, which is not a RequestException
  and is not caught, and the chat turn that called the tool ends in that exception.
\<close>

theorem get_weather_raises_on_malformed_body:
  "get_weather bare_env (Some ''Paris'') ''celsius'' fresh_world
     = (Inl (KeyError ''name''), fresh_world\<lparr>weather_calls := [(Some ''Paris'', ''metric'')]\<rparr>)
   \<and> fst (chat_with_gemini bare_env paris_request fresh_world) = Inl (KeyError ''name'')"
  by (simp add: scenario_defs code_defs io_defs)

subsection \<open>Replies that do not parse\<close>

lemma first_part_failure: "first_part response = Inl e \<Longrightarrow> e = IndexError \<or> e = AttributeError"
  by (auto simp: first_part_def split: list.splits option.splits)

text \<open>
  What the \<open>except\<close> branch does: when the first part of the reply cannot be read, the
  exception is caught and the conversation with the model ends with the result of the text
  accessor of that reply, a text or the exception the accessor raises; the handler goes on
  from it.
\<close>

lemma unreadable_first_part_is_caught:
  assumes "message request \<noteq> []" and "userId request \<noteq> []"
    and "save_message env (userId request) ''USER'' (message request) s = (Inr (), s1)"
    and "get_recent_history env (userId request) 5 s1 = (Inr history, s2)"
    and "gemini env (map history_entry history @ [UserMessage (message request)]) = Inr response"
    and "first_part response = Inl e"
  shows "model_turn env history (message request) s2
           = (text_of response,
              s2\<lparr>model_calls := model_calls s2 @
                    [map history_entry history @ [UserMessage (message request)]]\<rparr>)
         \<and> chat_with_gemini env request s
           = io_bind (io_lift (text_of response))
               (\<lambda>response_text.
                  io_bind (save_message env (userId request) ''BOT'' response_text)
                    (\<lambda>u. io_return response_text))
               (s2\<lparr>model_calls := model_calls s2 @
                    [map history_entry history @ [UserMessage (message request)]]\<rparr>)"
proof -
  let ?s3 = "s2\<lparr>model_calls := model_calls s2 @
                    [map history_entry history @ [UserMessage (message request)]]\<rparr>"
  from assms(6) have e: "e = IndexError \<or> e = AttributeError" by (rule first_part_failure)
  have mt: "model_turn env history (message request) s2 = (text_of response, ?s3)"
    using assms(5,6) e
    by (auto simp: model_turn_def send_message_def interpret_response_def io_defs Let_def)
  show ?thesis
    using assms(1-4) mt
    by (simp add: chat_with_gemini_def io_bind_def io_lift_def split: sum.splits)
qed

text \<open>
  C5. A reply whose candidate has no part cannot be parsed into either shape: reading its
  first part raises IndexError. The handler catches that exception and evaluates the text
  accessor of the same reply in the \<open>except\<close> branch, outside any \<open>try\<close>. On such a
  reply the accessor raises ValueError, so the request ends in that exception, answered with
  status 500, instead of in an answer text, and no BOT message is written.
\<close>

theorem unreadable_reply_ends_in_ValueError:
  "gemini partless_env [RoleText ''user'' ''hi'', UserMessage ''hi''] = Inr partless_reply
   \<and> first_part partless_reply = Inl IndexError
   \<and> fst (chat_with_gemini partless_env hi_request fresh_world)
       = Inl (ValueError ''response.text requires the response to contain a valid Part'')
   \<and> http_status (ValueError ''response.text requires the response to contain a valid Part'')
       = 500
   \<and> table_items (snd (chat_with_gemini partless_env hi_request fresh_world)) = [hi_user_item]"
  by (simp add: scenario_defs code_defs io_defs)

subsection \<open>Effects of the helpers and of the conversation with the model\<close>

lemma save_message_logs:
  assumes "save_message env user_id sender msg s = (r, s')"
  shows "weather_calls s' = weather_calls s" and "model_calls s' = model_calls s"
  using assms
  by (auto simp: save_message_def table_put_item_def utcnow_isoformat_def io_defs
      split: handle.splits option.splits)

lemma get_recent_history_frame:
  assumes "get_recent_history env user_id limit s = (r, s')"
  shows "weather_calls s' = weather_calls s" and "model_calls s' = model_calls s"
    and "table_items s' = table_items s" and "clock_reads s' = clock_reads s"
  using assms
  by (auto simp: get_recent_history_def table_query_def io_defs
      split: handle.splits option.splits if_splits)

lemma get_weather_effect:
  "snd (get_weather env location unit s)
     = s\<lparr>weather_calls := weather_calls s @ [(location, units_param unit)]\<rparr>"
  by (simp add: get_weather_def Let_def split: sum.splits exn.splits)

lemma get_weather_result_independent:
  "fst (get_weather env location unit s) = fst (get_weather env location unit w)"
  by (simp add: get_weather_def Let_def split: sum.splits exn.splits)

lemma send_message_effect:
  "snd (send_message env chat c s) = s\<lparr>model_calls := model_calls s @ [chat @ [c]]\<rparr>"
  by (simp add: send_message_def Let_def split: sum.splits)

lemma send_message_result:
  "fst (send_message env chat c s)
     = (case gemini env (chat @ [c]) of Inl e \<Rightarrow> Inl e
        | Inr response \<Rightarrow> Inr (response, chat @ [c, ModelReply response]))"
  by (simp add: send_message_def Let_def split: sum.splits)


lemma pair_eq_fst_snd: "(p = (a, b)) = (a = fst p \<and> b = snd p)"
  by auto

lemma model_turn_model_error:
  assumes "gemini env (map history_entry history @ [UserMessage msg]) = Inl e"
  shows "model_turn env history msg s = (Inl e, s\<lparr>model_calls := model_calls s @ [map history_entry history @ [UserMessage msg]]\<rparr>)"
  using assms
  by (simp add: model_turn_def io_bind_def send_message_def Let_def)

lemma model_turn_plain:
  assumes "gemini env (map history_entry history @ [UserMessage msg]) = Inr response"
    and "first_part response = Inr p" and "function_call p = None"
  shows "model_turn env history msg s = (text_of response, s\<lparr>model_calls := model_calls s @ [map history_entry history @ [UserMessage msg]]\<rparr>)"
  using assms
  by (simp add: model_turn_def interpret_response_def io_defs send_message_def Let_def
      split: sum.splits)

lemma model_turn_unparsed:
  assumes "gemini env (map history_entry history @ [UserMessage msg]) = Inr response"
    and "first_part response = Inl e"
  shows "model_turn env history msg s = (text_of response, s\<lparr>model_calls := model_calls s @ [map history_entry history @ [UserMessage msg]]\<rparr>)"
proof -
  from assms(2) have "e = IndexError \<or> e = AttributeError"
    by (auto simp: first_part_def split: list.splits option.splits)
  with assms show ?thesis
    by (auto simp: model_turn_def interpret_response_def io_defs send_message_def Let_def
       )
qed

lemma model_turn_tool:
  assumes g: "gemini env (map history_entry history @ [UserMessage msg]) = Inr response"
    and p: "first_part response = Inr p" and fc: "function_call p = Some fc"
  shows "model_turn env history msg s =
     (let c1 = map history_entry history @ [UserMessage msg];
          loc = map_of (rev (args fc)) ''location'';
          s1 = s\<lparr>weather_calls := weather_calls s @ [(loc, ''metric'')],
                 model_calls := model_calls s @ [c1]\<rparr>
      in case fst (get_weather env loc ''celsius'' s) of
           Inl e \<Rightarrow> (if e = IndexError \<or> e = AttributeError then text_of response else Inl e, s1)
         | Inr payload \<Rightarrow>
             (let c2 = c1 @ [ModelReply response, FunctionResponse ''get_weather'' payload];
                  s2 = s1\<lparr>model_calls := model_calls s @ [c1, c2]\<rparr>
              in case gemini env c2 of
                   Inl e \<Rightarrow> (if e = IndexError \<or> e = AttributeError then text_of response else Inl e, s2)
                 | Inr r2 \<Rightarrow>
                     (case text_of r2 of
                        Inl e \<Rightarrow> (if e = IndexError \<or> e = AttributeError then text_of response
                                   else Inl e, s2)
                      | Inr t \<Rightarrow> (Inr t, s2))))"
proof -
  let ?c1 = "map history_entry history @ [UserMessage msg]"
  let ?loc = "map_of (rev (args fc)) ''location''"
  let ?s0 = "s\<lparr>model_calls := model_calls s @ [?c1]\<rparr>"
  have gw: "get_weather env ?loc ''celsius'' ?s0
              = (fst (get_weather env ?loc ''celsius'' s),
                 s\<lparr>weather_calls := weather_calls s @ [(?loc, ''metric'')],
                   model_calls := model_calls s @ [?c1]\<rparr>)"
    using get_weather_result_independent [of env ?loc "''celsius''" ?s0 s]
    by (simp add: pair_eq_fst_snd get_weather_effect units_param_def)
  show ?thesis
    using g p fc gw
    by (simp add: model_turn_def interpret_response_def io_defs send_message_def Let_def
        split: sum.splits)
qed

lemma model_turn_world:
  "\<exists>ws cs. snd (model_turn env history msg s)
             = s\<lparr>weather_calls := weather_calls s @ ws,
                 model_calls := model_calls s @ (map history_entry history @ [UserMessage msg]) # cs\<rparr>
     \<and> length ws \<le> 1 \<and> length cs \<le> 1
     \<and> (length ws = 1 \<longleftrightarrow>
          (\<exists>r. gemini env (map history_entry history @ [UserMessage msg]) = Inr r \<and> requests_tool r))"
proof (cases "gemini env (map history_entry history @ [UserMessage msg])")
  case (Inl e)
  then show ?thesis
    by (intro exI [of _ "[]"]) (simp add: model_turn_model_error)
next
  case (Inr response)
  show ?thesis
  proof (cases "first_part response")
    case (Inl e)
    with Inr show ?thesis
      by (intro exI [of _ "[]"]) (simp add: model_turn_unparsed requests_tool_def)
  next
    case p: (Inr p)
    show ?thesis
    proof (cases "function_call p")
      case None
      with Inr p show ?thesis
        by (intro exI [of _ "[]"]) (simp add: model_turn_plain requests_tool_def)
    next
      case (Some fc)
      let ?loc = "map_of (rev (args fc)) ''location''"
      show ?thesis
      proof (cases "fst (get_weather env ?loc ''celsius'' s)")
        case (Inl e)
        with Inr p Some show ?thesis
          by (intro exI [of _ "[(?loc, ''metric'')]"] exI [of _ "[]"])
             (simp add: model_turn_tool requests_tool_def Let_def)
      next
        case payload: (Inr payload)
        with Inr p Some show ?thesis
          by (intro exI [of _ "[(?loc, ''metric'')]"]
                exI [of _ "[map history_entry history @ [UserMessage msg,
                       ModelReply response, FunctionResponse ''get_weather'' payload]]"])
             (simp add: model_turn_tool requests_tool_def Let_def split: sum.splits)
      qed
    qed
  qed
qed

lemma chat_with_gemini_logs:
  "\<exists>ws cs. weather_calls (snd (chat_with_gemini env request s)) = weather_calls s @ ws
     \<and> model_calls (snd (chat_with_gemini env request s)) = model_calls s @ cs
     \<and> length ws \<le> 1 \<and> length cs \<le> 2
     \<and> (length ws = 1 \<longleftrightarrow> cs \<noteq> [] \<and> (\<exists>r. gemini env (hd cs) = Inr r \<and> requests_tool r))"
proof (cases "message request = [] \<or> userId request = []")
  case True
  then show ?thesis
    by (intro exI [of _ "[]"]) (simp add: chat_with_gemini_def io_raise_def)
next
  case valid: False
  obtain r1 s1 where u: "save_message env (userId request) ''USER'' (message request) s = (r1, s1)"
    by (cases "save_message env (userId request) ''USER'' (message request) s")
  note l1 = save_message_logs [OF u]
  show ?thesis
  proof (cases r1)
    case (Inl e)
    with valid u l1 show ?thesis
      by (intro exI [of _ "[]"]) (simp add: chat_with_gemini_def io_bind_def)
  next
    case Inr
    obtain r2 s2 where h: "get_recent_history env (userId request) 5 s1 = (r2, s2)"
      by (cases "get_recent_history env (userId request) 5 s1")
    note l2 = get_recent_history_frame(1,2) [OF h]
    show ?thesis
    proof (cases r2)
      case (Inl e)
      with valid u \<open>r1 = Inr _\<close> h l1 l2 show ?thesis
        by (intro exI [of _ "[]"]) (simp add: chat_with_gemini_def io_bind_def)
    next
      case (Inr history)
      let ?c1 = "map history_entry history @ [UserMessage (message request)]"
      obtain r3 s3 where m: "model_turn env history (message request) s2 = (r3, s3)"
        by (cases "model_turn env history (message request) s2")
      from model_turn_world [of env history "message request" s2] m
      obtain ws cs where w: "s3 = s2\<lparr>weather_calls := weather_calls s2 @ ws,
                                     model_calls := model_calls s2 @ ?c1 # cs\<rparr>"
        and n: "length ws \<le> 1" "length cs \<le> 1"
        and t: "length ws = 1 \<longleftrightarrow> (\<exists>r. gemini env ?c1 = Inr r \<and> requests_tool r)"
        by auto
      have final: "weather_calls (snd (chat_with_gemini env request s)) = weather_calls s3
                   \<and> model_calls (snd (chat_with_gemini env request s)) = model_calls s3"
      proof (cases r3)
        case (Inl e)
        with valid u \<open>r1 = Inr _\<close> h \<open>r2 = Inr history\<close> m show ?thesis
          by (simp add: chat_with_gemini_def io_bind_def)
      next
        case (Inr answer)
        obtain r4 s4 where b: "save_message env (userId request) ''BOT'' answer s3 = (r4, s4)"
          by (cases "save_message env (userId request) ''BOT'' answer s3")
        from valid u \<open>r1 = Inr _\<close> h \<open>r2 = Inr history\<close> m Inr b save_message_logs [OF b]
        show ?thesis
          by (simp add: chat_with_gemini_def io_bind_def io_return_def split: sum.splits)
      qed
      with w l1 l2 n t show ?thesis
        by (intro exI [of _ ws] exI [of _ "?c1 # cs"]) simp
    qed
  qed
qed

subsection \<open>At most one tool round trip\<close>

text \<open>
  C6. In every run of the handler the weather tool is invoked at most once and the model is
  called at most twice, whatever the model answers to the second call; the tool is invoked
  exactly once if and only if the model was called and its first reply asks for the tool.
  When it does, the tool returns a payload (the weather or the error payload) and the second
  call, which carries that payload as the function response, is answered with a text, that
  text is the answer the handler goes on to persist and return.
\<close>

theorem one_tool_round_trip_per_turn:
  "(\<exists>ws cs. weather_calls (snd (chat_with_gemini env request s)) = weather_calls s @ ws
       \<and> model_calls (snd (chat_with_gemini env request s)) = model_calls s @ cs
       \<and> length ws \<le> 1 \<and> length cs \<le> 2
       \<and> (length ws = 1 \<longleftrightarrow> cs \<noteq> [] \<and> (\<exists>r. gemini env (hd cs) = Inr r \<and> requests_tool r)))
   \<and> (message request \<noteq> [] \<and> userId request \<noteq> []
       \<and> save_message env (userId request) ''USER'' (message request) s = (Inr (), s1)
       \<and> get_recent_history env (userId request) 5 s1 = (Inr history, s2)
       \<and> gemini env (map history_entry history @ [UserMessage (message request)]) = Inr response
       \<and> first_part response = Inr p \<and> function_call p = Some fc
       \<and> fst (get_weather env (map_of (rev (args fc)) ''location'') ''celsius'' s2) = Inr payload
       \<and> gemini env (map history_entry history @
             [UserMessage (message request), ModelReply response,
              FunctionResponse ''get_weather'' payload]) = Inr final
       \<and> text_of final = Inr answer
      \<longrightarrow> chat_with_gemini env request s
            = io_bind (save_message env (userId request) ''BOT'' answer) (\<lambda>u. io_return answer)
                (s2\<lparr>weather_calls := weather_calls s2 @
                        [(map_of (rev (args fc)) ''location'', ''metric'')],
                    model_calls := model_calls s2 @
                        [map history_entry history @ [UserMessage (message request)],
                         map history_entry history @
                           [UserMessage (message request), ModelReply response,
                            FunctionResponse ''get_weather'' payload]]\<rparr>))"
proof (intro conjI impI)
  show "\<exists>ws cs. weather_calls (snd (chat_with_gemini env request s)) = weather_calls s @ ws
       \<and> model_calls (snd (chat_with_gemini env request s)) = model_calls s @ cs
       \<and> length ws \<le> 1 \<and> length cs \<le> 2
       \<and> (length ws = 1 \<longleftrightarrow> cs \<noteq> [] \<and> (\<exists>r. gemini env (hd cs) = Inr r \<and> requests_tool r))"
    by (rule chat_with_gemini_logs)
next
  assume h: "message request \<noteq> [] \<and> userId request \<noteq> []
       \<and> save_message env (userId request) ''USER'' (message request) s = (Inr (), s1)
       \<and> get_recent_history env (userId request) 5 s1 = (Inr history, s2)
       \<and> gemini env (map history_entry history @ [UserMessage (message request)]) = Inr response
       \<and> first_part response = Inr p \<and> function_call p = Some fc
       \<and> fst (get_weather env (map_of (rev (args fc)) ''location'') ''celsius'' s2) = Inr payload
       \<and> gemini env (map history_entry history @
             [UserMessage (message request), ModelReply response,
              FunctionResponse ''get_weather'' payload]) = Inr final
       \<and> text_of final = Inr answer"
  then have "model_turn env history (message request) s2
      = (Inr answer,
         s2\<lparr>weather_calls := weather_calls s2 @
                        [(map_of (rev (args fc)) ''location'', ''metric'')],
            model_calls := model_calls s2 @
                        [map history_entry history @ [UserMessage (message request)],
                         map history_entry history @
                           [UserMessage (message request), ModelReply response,
                            FunctionResponse ''get_weather'' payload]]\<rparr>)"
    by (simp add: model_turn_tool Let_def)
  with h show "chat_with_gemini env request s
            = io_bind (save_message env (userId request) ''BOT'' answer) (\<lambda>u. io_return answer)
                (s2\<lparr>weather_calls := weather_calls s2 @
                        [(map_of (rev (args fc)) ''location'', ''metric'')],
                    model_calls := model_calls s2 @
                        [map history_entry history @ [UserMessage (message request)],
                         map history_entry history @
                           [UserMessage (message request), ModelReply response,
                            FunctionResponse ''get_weather'' payload]]\<rparr>)"
    by (simp add: chat_after_model_turn)
qed

theorem one_tool_round_trip_per_turn_witness:
  "message paris_request \<noteq> [] \<and> userId paris_request \<noteq> []
   \<and> save_message weather_env (userId paris_request) ''USER'' (message paris_request) fresh_world
       = (Inr (), fresh_world\<lparr>table_items := [paris_user_item], clock_reads := 1,
                               store_calls := 1\<rparr>)
   \<and> get_recent_history weather_env (userId paris_request) 5
         (fresh_world\<lparr>table_items := [paris_user_item], clock_reads := 1, store_calls := 1\<rparr>)
       = (Inr [paris_user_item],
          fresh_world\<lparr>table_items := [paris_user_item], clock_reads := 1, store_calls := 2\<rparr>)
   \<and> gemini weather_env (map history_entry [paris_user_item] @ [UserMessage (message paris_request)])
       = Inr (tool_request (args paris_call))
   \<and> first_part (tool_request (args paris_call)) = Inr \<lparr>function_call = Some paris_call\<rparr>
   \<and> function_call \<lparr>function_call = Some paris_call\<rparr> = Some paris_call
   \<and> fst (get_weather weather_env (map_of (rev (args paris_call)) ''location'') ''celsius''
         (fresh_world\<lparr>table_items := [paris_user_item], clock_reads := 1, store_calls := 2\<rparr>))
       = Inr paris_payload
   \<and> gemini weather_env (map history_entry [paris_user_item] @
         [UserMessage (message paris_request), ModelReply (tool_request (args paris_call)),
          FunctionResponse ''get_weather'' paris_payload])
       = Inr (text_reply ''It is 18.2 degrees with clear sky in Paris.'')
   \<and> text_of (text_reply ''It is 18.2 degrees with clear sky in Paris.'')
       = Inr ''It is 18.2 degrees with clear sky in Paris.''
   \<and> fst (chat_with_gemini weather_env paris_request fresh_world)
       = Inr ''It is 18.2 degrees with clear sky in Paris.''
   \<and> weather_calls (snd (chat_with_gemini weather_env paris_request fresh_world))
       = [(Some ''Paris'', ''metric'')]
   \<and> length (model_calls (snd (chat_with_gemini weather_env paris_request fresh_world))) = 2"
proof -
  let ?w1 = "fresh_world\<lparr>table_items := [paris_user_item], clock_reads := 1, store_calls := 1\<rparr>"
  let ?w2 = "fresh_world\<lparr>table_items := [paris_user_item], clock_reads := 1, store_calls := 2\<rparr>"
  let ?r = "tool_request (args paris_call)"
  let ?p = "\<lparr>function_call = Some paris_call\<rparr>"
  let ?t = "''It is 18.2 degrees with clear sky in Paris.''"
  have h: "message paris_request \<noteq> [] \<and> userId paris_request \<noteq> []
     \<and> save_message weather_env (userId paris_request) ''USER'' (message paris_request) fresh_world
         = (Inr (), ?w1)
     \<and> get_recent_history weather_env (userId paris_request) 5 ?w1 = (Inr [paris_user_item], ?w2)
     \<and> gemini weather_env (map history_entry [paris_user_item] @ [UserMessage (message paris_request)])
         = Inr ?r
     \<and> first_part ?r = Inr ?p \<and> function_call ?p = Some paris_call
     \<and> fst (get_weather weather_env (map_of (rev (args paris_call)) ''location'') ''celsius'' ?w2)
         = Inr paris_payload
     \<and> gemini weather_env (map history_entry [paris_user_item] @
           [UserMessage (message paris_request), ModelReply ?r,
            FunctionResponse ''get_weather'' paris_payload])
         = Inr (text_reply ?t)
     \<and> text_of (text_reply ?t) = Inr ?t"
    by (simp add: scenario_defs code_defs io_defs)
  from one_tool_round_trip_per_turn
         [of weather_env paris_request fresh_world ?w1 "[paris_user_item]" ?w2 ?r ?p paris_call
             paris_payload "text_reply ?t" ?t]
  have "chat_with_gemini weather_env paris_request fresh_world
          = io_bind (save_message weather_env (userId paris_request) ''BOT'' ?t) (\<lambda>u. io_return ?t)
              (?w2\<lparr>weather_calls := weather_calls ?w2 @
                      [(map_of (rev (args paris_call)) ''location'', ''metric'')],
                    model_calls := model_calls ?w2 @
                      [map history_entry [paris_user_item] @ [UserMessage (message paris_request)],
                       map history_entry [paris_user_item] @
                         [UserMessage (message paris_request), ModelReply ?r,
                          FunctionResponse ''get_weather'' paris_payload]]\<rparr>)"
    using h by blast
  then have "fst (chat_with_gemini weather_env paris_request fresh_world) = Inr ?t
     \<and> weather_calls (snd (chat_with_gemini weather_env paris_request fresh_world))
         = [(Some ''Paris'', ''metric'')]
     \<and> length (model_calls (snd (chat_with_gemini weather_env paris_request fresh_world))) = 2"
    by (simp add: scenario_defs code_defs io_defs)
  with h show ?thesis by simp
qed

subsection \<open>Reading the history\<close>

lemma sorted_by_timestamp_sorted: "sorted (map Timestamp (sorted_by_timestamp items))"
  by (simp add: sorted_by_timestamp_def)

lemma sorted_by_timestamp_mset: "mset (sorted_by_timestamp items) = mset items"
  by (simp add: sorted_by_timestamp_def)

lemma newest_first_descending:
  "sorted_wrt (\<lambda>a b. Timestamp b \<le> Timestamp a) (rev (sort_key Timestamp xs))"
proof -
  have "sorted (map Timestamp (sort_key Timestamp xs))" by simp
  then have "sorted_wrt (\<lambda>a b. Timestamp a \<le> Timestamp b) (sort_key Timestamp xs)"
    by (simp add: sorted_map)
  then show ?thesis by (simp add: sorted_wrt_rev)
qed

lemma take_of_descending_is_newest:
  assumes "sorted_wrt (\<lambda>a b. Timestamp b \<le> Timestamp a) zs"
    and "x \<in> set (take n zs)" and "y \<in> set (drop n zs)"
  shows "Timestamp y \<le> Timestamp x"
proof -
  from assms(1) have "sorted_wrt (\<lambda>a b. Timestamp b \<le> Timestamp a) (take n zs @ drop n zs)"
    by simp
  with assms(2,3) show ?thesis
    unfolding sorted_wrt_append by blast
qed

lemma query_newest_first_props:
  shows "length (query_newest_first user_id limit tbl) \<le> nat limit"
    and "x \<in> set (query_newest_first user_id limit tbl) \<Longrightarrow> UserID x = user_id \<and> x \<in> set tbl"
    and "x \<in> set (query_newest_first user_id limit tbl) \<Longrightarrow> y \<in> set tbl \<Longrightarrow> UserID y = user_id \<Longrightarrow>
           y \<notin> set (query_newest_first user_id limit tbl) \<Longrightarrow> Timestamp y \<le> Timestamp x"
proof -
  let ?zs = "rev (sort_key Timestamp (filter (\<lambda>j. UserID j = user_id) tbl))"
  show "length (query_newest_first user_id limit tbl) \<le> nat limit"
    by (simp add: query_newest_first_def)
  show "x \<in> set (query_newest_first user_id limit tbl) \<Longrightarrow> UserID x = user_id \<and> x \<in> set tbl"
    unfolding query_newest_first_def by (auto dest!: in_set_takeD)
  assume x: "x \<in> set (query_newest_first user_id limit tbl)"
    and y: "y \<in> set tbl" "UserID y = user_id" "y \<notin> set (query_newest_first user_id limit tbl)"
  from y(1,2) have "y \<in> set ?zs" by simp
  then have "y \<in> set (take (nat limit) ?zs) \<union> set (drop (nat limit) ?zs)"
    by (metis append_take_drop_id set_append)
  with y(3) have "y \<in> set (drop (nat limit) ?zs)"
    by (simp add: query_newest_first_def)
  with x newest_first_descending show "Timestamp y \<le> Timestamp x"
    unfolding query_newest_first_def by (blast intro: take_of_descending_is_newest)
qed

text \<open>
  Whatever \<open>get_recent_history\<close> returns is the empty list of the guard or the answer of
  the table, in the order the table gave it, sorted again by timestamp.
\<close>

lemma get_recent_history_returns:
  assumes "get_recent_history env user_id limit s = (Inr history, s')"
  shows "history = [] \<or>
         history = sorted_by_timestamp
                     (query_order env (query_newest_first user_id limit (table_items s)))"
  using assms
  by (auto simp: get_recent_history_def table_query_def io_defs
      split: handle.splits if_splits option.splits)

lemma reordered_answer:
  assumes "\<forall>xs. mset (query_order env xs) = mset xs"
  shows "set (query_order env xs) = set xs" and "length (query_order env xs) = length xs"
  using assms by (metis mset_eq_setD, metis mset_eq_length)

text \<open>
  C8. Let the table list the items of an answer in any order (the answer is a reordering of
  the items selected). Then whenever \<open>get_recent_history\<close> returns, the sequence is
  ascending by timestamp, has at most \<open>limit\<close> items, all of them items of the user in the
  table, and no item of the user left out is newer than one returned. It does return when
  the table is bound, the limit is at least 1 and the store does not fail, and then with
  exactly the items selected. \<open>get_full_history\<close> is \<open>get_recent_history\<close> with limit
  100, so it returns at most the 100 most recent Messages in chronological order.
\<close>

theorem recent_history_chronological_and_bounded:
  assumes "\<forall>xs. mset (query_order env xs) = mset xs"
  shows "(get_recent_history env user_id limit s = (Inr history, s') \<longrightarrow>
            sorted (map Timestamp history) \<and> length history \<le> nat limit
            \<and> (\<forall>x\<in>set history. UserID x = user_id \<and> x \<in> set (table_items s)
                 \<and> (\<forall>y\<in>set (table_items s). UserID y = user_id \<and> y \<notin> set history
                       \<longrightarrow> Timestamp y \<le> Timestamp x)))
       \<and> (chat_history_table env = Table \<and> 1 \<le> limit \<and> store_fault env (store_calls s) = None \<longrightarrow>
            (\<exists>h w. get_recent_history env user_id limit s = (Inr h, w)
               \<and> sorted (map Timestamp h)
               \<and> mset h = mset (query_newest_first user_id limit (table_items s))))
       \<and> get_full_history env user_id s = get_recent_history env user_id 100 s
       \<and> (get_full_history env user_id s = (Inr full, s'') \<longrightarrow>
            sorted (map Timestamp full) \<and> length full \<le> 100)"
proof (intro conjI impI)
  show "get_full_history env user_id s = get_recent_history env user_id 100 s"
    by (simp add: get_full_history_def)
next
  assume r: "get_recent_history env user_id limit s = (Inr history, s')"
  let ?q = "query_newest_first user_id limit (table_items s)"
  note h = get_recent_history_returns [OF r]
  from h show "sorted (map Timestamp history)"
    by (auto simp: sorted_by_timestamp_sorted)
  from h show "length history \<le> nat limit"
    using query_newest_first_props(1) [of user_id limit "table_items s"]
    by (auto simp: sorted_by_timestamp_def reordered_answer(2) [OF assms])
  from h have s: "set history = {} \<or> set history = set ?q"
    by (auto simp: sorted_by_timestamp_def reordered_answer(1) [OF assms])
  show "\<forall>x\<in>set history. UserID x = user_id \<and> x \<in> set (table_items s)
             \<and> (\<forall>y\<in>set (table_items s). UserID y = user_id \<and> y \<notin> set history
                   \<longrightarrow> Timestamp y \<le> Timestamp x)"
    using s
    by (auto dest: query_newest_first_props(2) intro: query_newest_first_props(3))
next
  assume c: "chat_history_table env = Table \<and> 1 \<le> limit \<and> store_fault env (store_calls s) = None"
  let ?h = "sorted_by_timestamp (query_order env (query_newest_first user_id limit (table_items s)))"
  from c have "get_recent_history env user_id limit s
                 = (Inr ?h, s\<lparr>store_calls := Suc (store_calls s)\<rparr>)"
    by (simp add: get_recent_history_def table_query_def io_defs)
  moreover have "sorted (map Timestamp ?h)"
    by (rule sorted_by_timestamp_sorted)
  moreover have "mset ?h = mset (query_newest_first user_id limit (table_items s))"
    using assms by (simp add: sorted_by_timestamp_mset)
  ultimately show "\<exists>h w. get_recent_history env user_id limit s = (Inr h, w)
               \<and> sorted (map Timestamp h)
               \<and> mset h = mset (query_newest_first user_id limit (table_items s))"
    by blast
next
  assume f: "get_full_history env user_id s = (Inr full, s'')"
  then have r: "get_recent_history env user_id 100 s = (Inr full, s'')"
    by (simp add: get_full_history_def)
  note h = get_recent_history_returns [OF r]
  from h show "sorted (map Timestamp full)"
    by (auto simp: sorted_by_timestamp_sorted)
  from h show "length full \<le> 100"
    using query_newest_first_props(1) [of user_id 100 "table_items s"]
    by (auto simp: sorted_by_timestamp_def reordered_answer(2) [OF assms])
qed

lemma shuffled_is_reordering: "mset (shuffled xs) = mset xs"
  by (cases xs) (simp_all add: shuffled_def)

theorem recent_history_chronological_and_bounded_witness:
  "fst (table_query shuffling_env ''u1'' 100 archive_world)
     = Inr [\<lparr>UserID = ''u1'', Timestamp = ''2024-04-30T09:00:01.900000+00:00'', Sender = ''BOT'',
              Message = ''Sunny.''\<rparr>,
            \<lparr>UserID = ''u1'', Timestamp = ''2024-04-30T09:00:00.100000+00:00'', Sender = ''USER'',
              Message = ''weather?''\<rparr>,
            \<lparr>UserID = ''u1'', Timestamp = ''2024-04-30T09:00:02+00:00'', Sender = ''USER'',
              Message = ''and tomorrow?''\<rparr>]
   \<and> get_recent_history shuffling_env ''u1'' 2 archive_world
     = (Inr [\<lparr>UserID = ''u1'', Timestamp = ''2024-04-30T09:00:01.900000+00:00'', Sender = ''BOT'',
              Message = ''Sunny.''\<rparr>,
             \<lparr>UserID = ''u1'', Timestamp = ''2024-04-30T09:00:02+00:00'', Sender = ''USER'',
              Message = ''and tomorrow?''\<rparr>],
        archive_world\<lparr>store_calls := 1\<rparr>)
   \<and> (chat_history_table shuffling_env = Table \<and> (1::int) \<le> 2
        \<and> store_fault shuffling_env (store_calls archive_world) = None)
   \<and> get_full_history shuffling_env ''u1'' archive_world
     = (Inr [\<lparr>UserID = ''u1'', Timestamp = ''2024-04-30T09:00:00.100000+00:00'', Sender = ''USER'',
              Message = ''weather?''\<rparr>,
             \<lparr>UserID = ''u1'', Timestamp = ''2024-04-30T09:00:01.900000+00:00'', Sender = ''BOT'',
              Message = ''Sunny.''\<rparr>,
             \<lparr>UserID = ''u1'', Timestamp = ''2024-04-30T09:00:02+00:00'', Sender = ''USER'',
              Message = ''and tomorrow?''\<rparr>],
        archive_world\<lparr>store_calls := 1\<rparr>)
   \<and> \<lparr>UserID = ''u1'', Timestamp = ''2024-04-30T09:00:00.100000+00:00'', Sender = ''USER'',
        Message = ''weather?''\<rparr> \<in> set (table_items archive_world)
   \<and> sorted (map Timestamp
         [\<lparr>UserID = ''u1'', Timestamp = ''2024-04-30T09:00:00.100000+00:00'', Sender = ''USER'',
           Message = ''weather?''\<rparr>,
          \<lparr>UserID = ''u1'', Timestamp = ''2024-04-30T09:00:01.900000+00:00'', Sender = ''BOT'',
           Message = ''Sunny.''\<rparr>,
          \<lparr>UserID = ''u1'', Timestamp = ''2024-04-30T09:00:02+00:00'', Sender = ''USER'',
           Message = ''and tomorrow?''\<rparr>])
   \<and> Timestamp \<lparr>UserID = ''u1'', Timestamp = ''2024-04-30T09:00:00.100000+00:00'',
                  Sender = ''USER'', Message = ''weather?''\<rparr>
       \<le> Timestamp \<lparr>UserID = ''u1'', Timestamp = ''2024-04-30T09:00:01.900000+00:00'',
                     Sender = ''BOT'', Message = ''Sunny.''\<rparr>"
proof -
  let ?old = "\<lparr>UserID = ''u1'', Timestamp = ''2024-04-30T09:00:00.100000+00:00'', Sender = ''USER'',
               Message = ''weather?''\<rparr>"
  let ?bot = "\<lparr>UserID = ''u1'', Timestamp = ''2024-04-30T09:00:01.900000+00:00'', Sender = ''BOT'',
               Message = ''Sunny.''\<rparr>"
  let ?new = "\<lparr>UserID = ''u1'', Timestamp = ''2024-04-30T09:00:02+00:00'', Sender = ''USER'',
               Message = ''and tomorrow?''\<rparr>"
  have p: "\<forall>xs. mset (query_order shuffling_env xs) = mset xs"
    by (simp add: shuffling_env_def shuffled_is_reordering)
  have a: "fst (table_query shuffling_env ''u1'' 100 archive_world) = Inr [?bot, ?old, ?new]"
    by (simp add: scenario_defs code_defs io_defs)
  have r: "get_recent_history shuffling_env ''u1'' 2 archive_world
             = (Inr [?bot, ?new], archive_world\<lparr>store_calls := 1\<rparr>)"
    by (simp add: scenario_defs code_defs io_defs)
  have c: "chat_history_table shuffling_env = Table \<and> (1::int) \<le> 2
             \<and> store_fault shuffling_env (store_calls archive_world) = None"
    by (simp add: scenario_defs)
  have f: "get_full_history shuffling_env ''u1'' archive_world
             = (Inr [?old, ?bot, ?new], archive_world\<lparr>store_calls := 1\<rparr>)"
    by (simp add: scenario_defs code_defs io_defs)
  have m: "?old \<in> set (table_items archive_world)"
    by (simp add: archive_world_def)
  note t = recent_history_chronological_and_bounded
             [OF p, of "''u1''" 2 archive_world "[?bot, ?new]"
                 "archive_world\<lparr>store_calls := 1\<rparr>" "[?old, ?bot, ?new]"
                 "archive_world\<lparr>store_calls := 1\<rparr>"]
  from t f have s: "sorted (map Timestamp [?old, ?bot, ?new])" by blast
  from t r have "\<forall>x\<in>set [?bot, ?new]. UserID x = ''u1'' \<and> x \<in> set (table_items archive_world)
             \<and> (\<forall>y\<in>set (table_items archive_world). UserID y = ''u1'' \<and> y \<notin> set [?bot, ?new]
                   \<longrightarrow> Timestamp y \<le> Timestamp x)" by blast
  then have "\<forall>y\<in>set (table_items archive_world). UserID y = ''u1'' \<and> y \<notin> set [?bot, ?new]
                   \<longrightarrow> Timestamp y \<le> Timestamp ?bot" by simp
  with m have "UserID ?old = ''u1'' \<and> ?old \<notin> set [?bot, ?new] \<longrightarrow> Timestamp ?old \<le> Timestamp ?bot"
    by blast
  then have o: "Timestamp ?old \<le> Timestamp ?bot" by simp
  from a r c f m s o show ?thesis by blast
qed

subsection \<open>The two writes of a turn\<close>

lemma save_message_Table:
  assumes "chat_history_table env = Table"
    and "save_message env user_id sender msg s = (Inr (), s')"
  shows "s' = s\<lparr>table_items := put_item \<lparr>UserID = user_id, Timestamp = now_iso env (clock_reads s),
                                           Sender = sender, Message = msg\<rparr> (table_items s),
                 clock_reads := Suc (clock_reads s), store_calls := Suc (store_calls s)\<rparr>"
  using assms
  by (auto simp: save_message_def table_put_item_def utcnow_isoformat_def io_defs
      split: option.splits)

lemma save_message_Table_succeeds:
  assumes "chat_history_table env = Table" and "store_fault env (store_calls s) = None"
  shows "save_message env user_id sender msg s
           = (Inr (), s\<lparr>table_items := put_item \<lparr>UserID = user_id,
                             Timestamp = now_iso env (clock_reads s),
                             Sender = sender, Message = msg\<rparr> (table_items s),
                          clock_reads := Suc (clock_reads s), store_calls := Suc (store_calls s)\<rparr>)"
  using assms
  by (simp add: save_message_def table_put_item_def utcnow_isoformat_def io_defs)

lemma chat_with_gemini_success:
  assumes "chat_with_gemini env request s = (Inr answer, s')"
  obtains s1 history s2 s3 where "message request \<noteq> []" and "userId request \<noteq> []"
    and "save_message env (userId request) ''USER'' (message request) s = (Inr (), s1)"
    and "get_recent_history env (userId request) 5 s1 = (Inr history, s2)"
    and "model_turn env history (message request) s2 = (Inr answer, s3)"
    and "save_message env (userId request) ''BOT'' answer s3 = (Inr (), s')"
  using assms
  by (auto simp: chat_with_gemini_def io_defs split: if_splits prod.splits sum.splits)

lemma model_turn_frame:
  assumes "model_turn env history msg s = (r, s')"
  shows "table_items s' = table_items s" and "clock_reads s' = clock_reads s"
    and "store_calls s' = store_calls s"
proof -
  from model_turn_world [of env history msg s] assms
  obtain ws cs where "s' = s\<lparr>weather_calls := weather_calls s @ ws,
          model_calls := model_calls s @ (map history_entry history @ [UserMessage msg]) # cs\<rparr>"
    by auto
  then show "table_items s' = table_items s" and "clock_reads s' = clock_reads s"
    and "store_calls s' = store_calls s"
    by simp_all
qed

lemma put_item_twice:
  assumes "\<not> same_key u b"
  shows "put_item b (put_item u tbl)
           = filter (\<lambda>j. \<not> same_key j u \<and> \<not> same_key j b) tbl @ [u, b]"
  using assms by (simp add: put_item_def conj_commute)

text \<open>
  C7 as stated: a successful turn appends two Messages, USER then BOT, and the timestamp of
  the BOT message is strictly greater. Each write takes its timestamp from a reading of the
  wall clock of its own, and nothing orders the two readings. Where the clock is set back
  between them the turn succeeds and the BOT message is stored with the smaller timestamp,
  so the history read back shows the answer before the question.
\<close>

theorem clock_set_back_counterexample:
  "chat_history_table set_back_env = Table
   \<and> fst (chat_with_gemini set_back_env hi_request fresh_world) = Inr ''Hello!''
   \<and> table_items (snd (chat_with_gemini set_back_env hi_request fresh_world))
       = [\<lparr>UserID = ''u1'', Timestamp = ''2024-05-01T10:00:01.750000+00:00'',
           Sender = ''USER'', Message = ''hi''\<rparr>,
          \<lparr>UserID = ''u1'', Timestamp = ''2024-05-01T10:00:00.250000+00:00'',
           Sender = ''BOT'', Message = ''Hello!''\<rparr>]
   \<and> ''2024-05-01T10:00:00.250000+00:00'' < ''2024-05-01T10:00:01.750000+00:00''
   \<and> fst (get_full_history set_back_env ''u1''
              (snd (chat_with_gemini set_back_env hi_request fresh_world)))
       = Inr [\<lparr>UserID = ''u1'', Timestamp = ''2024-05-01T10:00:00.250000+00:00'',
               Sender = ''BOT'', Message = ''Hello!''\<rparr>,
              \<lparr>UserID = ''u1'', Timestamp = ''2024-05-01T10:00:01.750000+00:00'',
               Sender = ''USER'', Message = ''hi''\<rparr>]"
  by (simp add: scenario_defs code_defs io_defs)

text \<open>
  Where the two readings are the same instant the two items have the same key, and the table
  holds the BOT item alone after the turn.
\<close>

lemma stalled_clock_overwrites:
  "fst (chat_with_gemini stalled_env hi_request fresh_world) = Inr ''Hello!''
   \<and> table_items (snd (save_message stalled_env ''u1'' ''USER'' ''hi'' fresh_world))
       = [\<lparr>UserID = ''u1'', Timestamp = ''2024-05-01T10:00:00.250000+00:00'',
           Sender = ''USER'', Message = ''hi''\<rparr>]
   \<and> table_items (snd (chat_with_gemini stalled_env hi_request fresh_world))
       = [\<lparr>UserID = ''u1'', Timestamp = ''2024-05-01T10:00:00.250000+00:00'',
           Sender = ''BOT'', Message = ''Hello!''\<rparr>]"
  by (simp add: scenario_defs code_defs io_defs)

text \<open>
  C7, amended. For every successful chat turn with the table bound, exactly two writes are
  made: first the USER message stamped with the clock reading taken at that write, then the
  BOT message with the answer, stamped with the next reading. When the second reading is
  later than the first, both Messages are in the table after the turn, USER before BOT, after
  the items that were there under other keys, and the timestamp of the BOT message is the
  greater one.
\<close>

theorem successful_turn_writes_user_then_bot:
  assumes "chat_history_table env = Table"
    and "chat_with_gemini env request s = (Inr answer, s')"
  shows "let u = \<lparr>UserID = userId request, Timestamp = now_iso env (clock_reads s),
                  Sender = ''USER'', Message = message request\<rparr>;
             b = \<lparr>UserID = userId request, Timestamp = now_iso env (Suc (clock_reads s)),
                  Sender = ''BOT'', Message = answer\<rparr>
         in table_items s' = put_item b (put_item u (table_items s))
            \<and> clock_reads s' = clock_reads s + 2
            \<and> (Timestamp u < Timestamp b \<longrightarrow>
                 table_items s'
                   = filter (\<lambda>j. \<not> same_key j u \<and> \<not> same_key j b) (table_items s) @ [u, b])"
proof -
  let ?u = "\<lparr>UserID = userId request, Timestamp = now_iso env (clock_reads s),
                  Sender = ''USER'', Message = message request\<rparr>"
  let ?b = "\<lparr>UserID = userId request, Timestamp = now_iso env (Suc (clock_reads s)),
                  Sender = ''BOT'', Message = answer\<rparr>"
  from assms(2) obtain s1 history s2 s3 where
        u: "save_message env (userId request) ''USER'' (message request) s = (Inr (), s1)"
    and h: "get_recent_history env (userId request) 5 s1 = (Inr history, s2)"
    and m: "model_turn env history (message request) s2 = (Inr answer, s3)"
    and b: "save_message env (userId request) ''BOT'' answer s3 = (Inr (), s')"
    by (rule chat_with_gemini_success)
  note e1 = save_message_Table [OF assms(1) u]
  have t3: "table_items s3 = put_item ?u (table_items s)"
    and c3: "clock_reads s3 = Suc (clock_reads s)"
    using e1 get_recent_history_frame(3,4) [OF h] model_turn_frame(1,2) [OF m] by simp_all
  from save_message_Table [OF assms(1) b] t3 c3
  have t: "table_items s' = put_item ?b (put_item ?u (table_items s))"
    and c: "clock_reads s' = clock_reads s + 2"
    by simp_all
  have "Timestamp ?u < Timestamp ?b \<Longrightarrow>
          table_items s' = filter (\<lambda>j. \<not> same_key j ?u \<and> \<not> same_key j ?b) (table_items s) @ [?u, ?b]"
    unfolding t by (rule put_item_twice) (simp add: same_key_def)
  with t c show ?thesis by (simp add: Let_def)
qed

theorem successful_turn_writes_user_then_bot_witness:
  "chat_history_table plain_env = Table
   \<and> chat_with_gemini plain_env hi_request fresh_world
       = (Inr ''Hello!'',
          fresh_world\<lparr>table_items := [hi_user_item, hello_bot_item], clock_reads := 2,
                        store_calls := 3,
                        model_calls := [[RoleText ''user'' ''hi'', UserMessage ''hi'']]\<rparr>)
   \<and> Timestamp hi_user_item < Timestamp hello_bot_item
   \<and> table_items (fresh_world\<lparr>table_items := [hi_user_item, hello_bot_item], clock_reads := 2,
                        store_calls := 3,
                        model_calls := [[RoleText ''user'' ''hi'', UserMessage ''hi'']]\<rparr>)
       = table_items fresh_world @ [hi_user_item, hello_bot_item]"
proof -
  let ?w = "fresh_world\<lparr>table_items := [hi_user_item, hello_bot_item], clock_reads := 2,
                        store_calls := 3,
                        model_calls := [[RoleText ''user'' ''hi'', UserMessage ''hi'']]\<rparr>"
  have a: "chat_history_table plain_env = Table"
    by (simp add: scenario_defs)
  have b: "chat_with_gemini plain_env hi_request fresh_world = (Inr ''Hello!'', ?w)"
    by (simp add: scenario_defs code_defs io_defs)
  have c: "Timestamp hi_user_item < Timestamp hello_bot_item"
    by (simp add: hi_user_item_def hello_bot_item_def)
  from successful_turn_writes_user_then_bot [OF a b] c
  have "table_items ?w = table_items fresh_world @ [hi_user_item, hello_bot_item]"
    by (simp add: Let_def scenario_defs same_key_def)
  with a b c show ?thesis by blast
qed

subsection \<open>The history window of a turn\<close>

lemma insort_key_before_greatest:
  "f x < f u \<Longrightarrow> insort_key f x (ys @ [u]) = insort_key f x ys @ [u]"
  by (induction ys) auto

lemma foldr_insort_key_greatest:
  "\<forall>x\<in>set xs. f x < f u \<Longrightarrow>
     foldr (insort_key f) xs (ys @ [u]) = foldr (insort_key f) xs ys @ [u]"
  by (induction xs) (auto simp: insort_key_before_greatest)

lemma sort_key_snoc_greatest:
  assumes "\<forall>x\<in>set xs. f x < f u"
  shows "sort_key f (xs @ [u]) = sort_key f xs @ [u]"
  using foldr_insort_key_greatest [OF assms, of "[]"]
  by (simp add: sort_key_def)

lemma sorted_last_greatest:
  "sorted (map f zs) \<Longrightarrow> z \<in> set zs \<Longrightarrow> f z \<le> f (last zs)"
  by (induction zs) auto

text \<open>Sorting a list whose one greatest element is \<open>u\<close> puts \<open>u\<close> last.\<close>

lemma sort_key_greatest_last:
  assumes m: "mset xs = mset (u # ys)" and less: "\<forall>y\<in>set ys. f y < f u"
  shows "\<exists>older. sort_key f xs = older @ [u] \<and> length older = length ys"
proof -
  let ?zs = "sort_key f xs"
  have mz: "mset ?zs = mset (u # ys)" using m by simp
  then have sz: "set ?zs = insert u (set ys)" and lz: "length ?zs = Suc (length ys)"
    by (metis mset_eq_setD list.simps(15), metis mset_eq_length length_Cons)
  have ne: "?zs \<noteq> []"
  proof
    assume "?zs = []"
    then have "length ?zs = 0" by simp
    with lz show False by simp
  qed
  have "last ?zs = u"
  proof (rule ccontr)
    assume "last ?zs \<noteq> u"
    moreover from ne have "last ?zs \<in> set ?zs" by (rule last_in_set)
    ultimately have "last ?zs \<in> set ys" using sz by auto
    with less have "f (last ?zs) < f u" by blast
    moreover have "f u \<le> f (last ?zs)"
      using sz by (intro sorted_last_greatest) simp_all
    ultimately show False by simp
  qed
  with ne have "?zs = butlast ?zs @ [u]"
    by (metis append_butlast_last_id)
  moreover have "length (butlast ?zs) = length ys" using lz by simp
  ultimately show ?thesis by blast
qed

text \<open>
  After the write of the newest item of a user, the window read back ends with it, in
  whatever order the table lists the items of the answer.
\<close>

lemma window_after_put_newest:
  assumes perm: "\<forall>xs. mset (ord xs) = mset xs"
    and newest: "\<forall>j\<in>set tbl. UserID j = UserID u \<longrightarrow> Timestamp j < Timestamp u"
  shows "\<exists>older. length older \<le> 4 \<and>
           sorted_by_timestamp (ord (query_newest_first (UserID u) 5 (put_item u tbl)))
             = older @ [u]"
proof -
  let ?F = "filter (\<lambda>j. UserID j = UserID u) (filter (\<lambda>j. \<not> same_key j u) tbl)"
  have less: "\<forall>x\<in>set ?F. Timestamp x < Timestamp u"
    using newest by auto
  have "filter (\<lambda>j. UserID j = UserID u) (put_item u tbl) = ?F @ [u]"
    by (simp add: put_item_def)
  then have "query_newest_first (UserID u) 5 (put_item u tbl)
               = take 5 (rev (sort_key Timestamp (?F @ [u])))"
    by (simp add: query_newest_first_def)
  also have "\<dots> = u # take 4 (rev (sort_key Timestamp ?F))"
    by (subst sort_key_snoc_greatest [OF less]) (simp del: filter_filter)
  finally have q: "query_newest_first (UserID u) 5 (put_item u tbl)
                     = u # take 4 (rev (sort_key Timestamp ?F))" .
  let ?ys = "take 4 (rev (sort_key Timestamp ?F))"
  have ys: "\<forall>x\<in>set ?ys. Timestamp x < Timestamp u"
    using less by (auto dest!: in_set_takeD)
  from perm q have "mset (ord (query_newest_first (UserID u) 5 (put_item u tbl))) = mset (u # ?ys)"
    by simp
  from sort_key_greatest_last [OF this ys]
  obtain older where "sort_key Timestamp (ord (query_newest_first (UserID u) 5 (put_item u tbl)))
                        = older @ [u]" and "length older = length ?ys"
    by blast
  moreover have "length ?ys \<le> 4" by simp
  ultimately show ?thesis
    unfolding sorted_by_timestamp_def by auto
qed

lemma chat_logs_after_history:
  assumes "message request \<noteq> []" and "userId request \<noteq> []"
    and "save_message env (userId request) ''USER'' (message request) s = (Inr (), s1)"
    and "get_recent_history env (userId request) 5 s1 = (Inr history, s2)"
  shows "model_calls (snd (chat_with_gemini env request s))
           = model_calls (snd (model_turn env history (message request) s2))"
proof -
  obtain r3 s3 where m: "model_turn env history (message request) s2 = (r3, s3)"
    by (cases "model_turn env history (message request) s2")
  show ?thesis
  proof (cases r3)
    case (Inl e)
    with assms m show ?thesis
      by (simp add: chat_with_gemini_def io_bind_def)
  next
    case (Inr answer)
    obtain r4 s4 where b: "save_message env (userId request) ''BOT'' answer s3 = (r4, s4)"
      by (cases "save_message env (userId request) ''BOT'' answer s3")
    from assms m Inr b save_message_logs(2) [OF b] show ?thesis
      by (simp add: chat_with_gemini_def io_bind_def io_return_def split: sum.splits)
  qed
qed

text \<open>
  C10 as stated: in every chat turn with the store configured the USER message just
  persisted is in the window of five loaded next, being the newest stored item, so the model
  receives the current message twice. The timestamp of the message is a reading of the wall
  clock and nothing makes it the newest. Where the table already holds five messages of the
  user stamped later than the clock reads, the message is written, the window holds those
  five, and the model receives the current message once.
\<close>

theorem later_stamped_history_counterexample:
  "chat_history_table plain_env = Table
   \<and> save_message plain_env ''u1'' ''USER'' ''hi'' later_world
       = (Inr (), later_world\<lparr>table_items := table_items later_world @ [hi_user_item],
                               clock_reads := 1, store_calls := 1\<rparr>)
   \<and> fst (chat_with_gemini plain_env hi_request later_world) = Inr ''Hello!''
   \<and> model_calls (snd (chat_with_gemini plain_env hi_request later_world))
       = [[RoleText ''user'' ''q1'', RoleText ''model'' ''a1'', RoleText ''user'' ''q2'',
           RoleText ''model'' ''a2'', RoleText ''user'' ''q3'', UserMessage ''hi'']]"
  by (simp add: scenario_defs code_defs io_defs)

text \<open>
  C10, amended. For every chat turn with the store configured in which the write of the
  USER message and the query of the history succeed, the table answers with the items
  selected in any order, and the clock reading taken at the write is later than every
  timestamp stored for the user (so that the message just persisted is the newest stored
  item), the conversation the handler sends to the model ends with the current message twice:
  as the last entry of the history, with role \<open>user\<close>, after at most four older entries,
  and again as the new message.
\<close>

theorem current_message_reaches_model_twice:
  assumes "chat_history_table env = Table"
    and "message request \<noteq> []" and "userId request \<noteq> []"
    and "store_fault env (store_calls s) = None"
    and "store_fault env (Suc (store_calls s)) = None"
    and "\<forall>xs. mset (query_order env xs) = mset xs"
    and "\<forall>j\<in>set (table_items s). UserID j = userId request \<longrightarrow>
           Timestamp j < now_iso env (clock_reads s)"
  shows "\<exists>older rest. length older \<le> 4 \<and>
           model_calls (snd (chat_with_gemini env request s))
             = model_calls s @
               (map history_entry older @
                  [RoleText ''user'' (message request), UserMessage (message request)]) # rest"
proof -
  let ?u = "\<lparr>UserID = userId request, Timestamp = now_iso env (clock_reads s),
             Sender = ''USER'', Message = message request\<rparr>"
  let ?s1 = "s\<lparr>table_items := put_item ?u (table_items s),
               clock_reads := Suc (clock_reads s), store_calls := Suc (store_calls s)\<rparr>"
  have u: "save_message env (userId request) ''USER'' (message request) s = (Inr (), ?s1)"
    using assms(1,4) by (rule save_message_Table_succeeds)
  have "\<forall>j\<in>set (table_items s). UserID j = UserID ?u \<longrightarrow> Timestamp j < Timestamp ?u"
    using assms(7) by simp
  from window_after_put_newest [OF assms(6) this]
  obtain older where n: "length older \<le> 4"
    and w: "sorted_by_timestamp
              (query_order env (query_newest_first (userId request) 5 (put_item ?u (table_items s))))
              = older @ [?u]"
    by auto
  let ?s2 = "?s1\<lparr>store_calls := Suc (Suc (store_calls s))\<rparr>"
  have h: "get_recent_history env (userId request) 5 ?s1 = (Inr (older @ [?u]), ?s2)"
    using assms(1,5) w by (simp add: get_recent_history_def table_query_def io_defs)
  from model_turn_world [of env "older @ [?u]" "message request" ?s2]
  obtain cs where "model_calls (snd (model_turn env (older @ [?u]) (message request) ?s2))
      = model_calls s @ (map history_entry (older @ [?u]) @ [UserMessage (message request)]) # cs"
    by auto
  then have "model_calls (snd (chat_with_gemini env request s))
      = model_calls s @ (map history_entry older @
           [RoleText ''user'' (message request), UserMessage (message request)]) # cs"
    using chat_logs_after_history [OF assms(2,3) u h] by (simp add: history_entry_def)
  with n show ?thesis by blast
qed

theorem current_message_reaches_model_twice_witness:
  "chat_history_table shuffling_env = Table
   \<and> message hi_request \<noteq> [] \<and> userId hi_request \<noteq> []
   \<and> store_fault shuffling_env (store_calls archive_world) = None
   \<and> store_fault shuffling_env (Suc (store_calls archive_world)) = None
   \<and> filter (\<lambda>j. UserID j = userId hi_request
                    \<and> \<not> Timestamp j < now_iso shuffling_env (clock_reads archive_world))
         (table_items archive_world) = []
   \<and> (\<exists>older rest. length older \<le> 4 \<and>
         model_calls (snd (chat_with_gemini shuffling_env hi_request archive_world))
           = model_calls archive_world @
             (map history_entry older @
                [RoleText ''user'' (message hi_request), UserMessage (message hi_request)]) # rest)
   \<and> model_calls (snd (chat_with_gemini shuffling_env hi_request archive_world))
       = [[RoleText ''user'' ''weather?'', RoleText ''model'' ''Sunny.'',
           RoleText ''user'' ''and tomorrow?'', RoleText ''user'' ''hi'', UserMessage ''hi'']]"
proof -
  have a: "chat_history_table shuffling_env = Table"
    and b: "message hi_request \<noteq> []" and c: "userId hi_request \<noteq> []"
    and d: "store_fault shuffling_env (store_calls archive_world) = None"
    and e: "store_fault shuffling_env (Suc (store_calls archive_world)) = None"
    by (simp_all add: scenario_defs)
  have p: "\<forall>xs. mset (query_order shuffling_env xs) = mset xs"
    by (simp add: shuffling_env_def shuffled_is_reordering)
  have f: "\<forall>j\<in>set (table_items archive_world). UserID j = userId hi_request \<longrightarrow>
             Timestamp j < now_iso shuffling_env (clock_reads archive_world)"
    by (simp add: scenario_defs)
  have f': "filter (\<lambda>j. UserID j = userId hi_request
                      \<and> \<not> Timestamp j < now_iso shuffling_env (clock_reads archive_world))
              (table_items archive_world) = []"
    by (simp add: scenario_defs)
  have g: "model_calls (snd (chat_with_gemini shuffling_env hi_request archive_world))
       = [[RoleText ''user'' ''weather?'', RoleText ''model'' ''Sunny.'',
           RoleText ''user'' ''and tomorrow?'', RoleText ''user'' ''hi'', UserMessage ''hi'']]"
    by (simp add: scenario_defs code_defs io_defs)
  from current_message_reaches_model_twice [OF a b c d e p f] a b c d e f' g
  show ?thesis by blast
qed

end
